theory Spec2Isabelle
  imports Complex_Main "HOL-Library.Word"
begin

unbundle bit_operations_syntax

chapter \<open>Gopher2600: stepper, TIA step, patcher and hand controller\<close>

text \<open>
  A shallow embedding of four pieces of the emulator:
  \<^item> \<^verbatim>\<open>errors\<close>: error numbers and the \<^verbatim>\<open>errors.Is\<close> test;
  \<^item> \<^verbatim>\<open>input.HandController.Handle\<close> (hand controller events);
  \<^item> \<^verbatim>\<open>patch.CartridgeMemory\<close> (the patch-file reader);
  \<^item> \<^verbatim>\<open>hardware.VCS.Step\<close> and \<^verbatim>\<open>tia.TIA.Step\<close> (the cycle engine).
  Go's mutable structs are records that every function takes and returns; a Go
  \<^verbatim>\<open>error\<close> result is an \<open>error option\<close> (\<open>None\<close> for \<^verbatim>\<open>nil\<close>).

  Names are those of the source. Two functions are called \<^verbatim>\<open>Step\<close>: the stepper's
  keeps the name and the TIA's is \<open>TIAStep\<close>. The fields of the hand controller carry
  the prefix \<open>hc_\<close>, those of a logged chip write the prefix \<open>cw\<close>, and the TIA's
  \<^verbatim>\<open>mem\<close> is \<open>chipMem\<close>, since a field name is a constant of the whole theory.
\<close>

section \<open>Errors\<close>

text \<open>
  The error numbers used by the code modelled here. \<^verbatim>\<open>errors.New(errno, values...)\<close>
  builds an error with a head error number and a list of values; a value may itself be
  an error (wrapping). Errors that do not come from the \<^verbatim>\<open>errors\<close> package (an
  \<^verbatim>\<open>os.PathError\<close>, say) are \<open>PlainError\<close>.
\<close>

datatype Errno =
    BadInputEventType
  | InputDeviceUnplugged
  | UnknownInputEvent
  | PatchError
  | TVOutOfSpec
  | UnknownTVRequest
  | OtherErrno nat

datatype error =
    AtariError Errno "errvalue list"
  | PlainError string
and errvalue =
    StrValue string
  | NatValue nat
  | ErrValue error

text \<open>
  Modelled from the spec: \<^verbatim>\<open>errors.Is\<close> is not among the sources. An error is
  classified by its kind (\<section>7), so \<open>Is err errno\<close> holds when \<open>err\<close> was made by the
  \<^verbatim>\<open>errors\<close> package with \<open>errno\<close> as its head error number.
\<close>

fun Is :: "error \<Rightarrow> Errno \<Rightarrow> bool" where
  "Is (AtariError head _) errno = (head = errno)"
| "Is (PlainError _) errno = False"

section \<open>Hand controller\<close>

subsection \<open>Events and values\<close>

datatype Event =
    NoEvent
  | Left | Right | Up | Down | Fire
  | PaddleFire | PaddleSet
  | KeyboardDown | KeyboardUp
  | Unplug
  | OtherEvent nat

text \<open>
  \<^verbatim>\<open>EventValue\<close> is Go's empty interface: the dynamic type is part of the value.
  A \<^verbatim>\<open>rune\<close> is a code point (\<open>int\<close>); a \<^verbatim>\<open>float32\<close> is kept as a real
  number (rounding plays no part in the properties below).
\<close>

datatype EventValue =
    NilValue
  | BoolValue bool
  | Float32Value real
  | RuneValue int
  | OtherValue string

definition rune :: "char \<Rightarrow> int" where
  "rune c = of_char c"

datatype ID = HandControllerZeroID | HandControllerOneID | PanelID

fun idValue :: "ID \<Rightarrow> errvalue" where
  "idValue HandControllerZeroID = StrValue ''HandControllerZero''"
| "idValue HandControllerOneID = StrValue ''HandControllerOne''"
| "idValue PanelID = StrValue ''Panel''"

fun eventValue :: "Event \<Rightarrow> errvalue" where
  "eventValue NoEvent = StrValue ''NoEvent''"
| "eventValue Left = StrValue ''Left''"
| "eventValue Right = StrValue ''Right''"
| "eventValue Up = StrValue ''Up''"
| "eventValue Down = StrValue ''Down''"
| "eventValue Fire = StrValue ''Fire''"
| "eventValue PaddleFire = StrValue ''PaddleFire''"
| "eventValue PaddleSet = StrValue ''PaddleSet''"
| "eventValue KeyboardDown = StrValue ''KeyboardDown''"
| "eventValue KeyboardUp = StrValue ''KeyboardUp''"
| "eventValue Unplug = StrValue ''Unplug''"
| "eventValue (OtherEvent n) = NatValue n"

subsection \<open>Controller state\<close>

text \<open>
  Modelled from the spec: the chip memory areas (\<^verbatim>\<open>inputMemory\<close>, package
  \<^verbatim>\<open>memory\<close>) are not among the sources. \<section>4.1 gives chips a
  \<^verbatim>\<open>chip_write(reg, value, preserve_mask)\<close>; each area is modelled as the log of the
  writes it has received, oldest first.
\<close>

record chipWrite =
  cwAddress :: "16 word"
  cwData :: "8 word"
  cwPreserveBits :: "8 word"

record inputMemory =
  riotArea :: "chipWrite list"
  tiaArea :: "chipWrite list"

definition InputDeviceWrite :: "16 word \<Rightarrow> 8 word \<Rightarrow> 8 word \<Rightarrow> chipWrite list \<Rightarrow> chipWrite list" where
  "InputDeviceWrite a d m area = area @ [\<lparr>cwAddress = a, cwData = d, cwPreserveBits = m\<rparr>]"

record ControlBits =
  latchFireButton :: bool

record stick =
  addr :: "16 word"
  buttonAddr :: "16 word"
  axis :: "8 word"
  button :: bool
  transform :: "8 word \<Rightarrow> 8 word"
  addrMask :: "8 word"

record paddle =
  paddleAddr :: "16 word"
  paddleButtonAddr :: "16 word"
  buttonMask :: "8 word"
  charge :: "8 word"
  resistance :: real
  ticks :: real

record keyboard =
  keyboardAddr :: "16 word"
  key :: int

text \<open>
  The embedded \<^verbatim>\<open>port\<close> contributes the identity and the optional event recorder
  (an interface value, \<open>None\<close> when \<^verbatim>\<open>nil\<close>); the recorder's answer is all the
  controller sees of it.
\<close>

record HandController =
  hc_id :: ID
  hc_recorder :: "(ID \<Rightarrow> Event \<Rightarrow> EventValue \<Rightarrow> error option) option"
  hc_mem :: inputMemory
  hc_control :: ControlBits
  hc_stick :: stick
  hc_paddle :: paddle
  hc_keyboard :: keyboard
  hc_ddr :: "8 word"

definition badType :: "Event \<Rightarrow> string \<Rightarrow> error" where
  "badType event want = AtariError BadInputEventType [eventValue event, StrValue want]"

text \<open>The four direction events differ only in the axis bit they drive.\<close>

definition moveAxis :: "8 word \<Rightarrow> bool \<Rightarrow> HandController \<Rightarrow> HandController" where
  "moveAxis pin b hc =
     (let st = hc_stick hc;
          st' = st\<lparr>axis := (if b then axis st XOR pin else axis st OR pin)\<rparr>;
          m = hc_mem hc
      in hc\<lparr>hc_stick := st',
            hc_mem := m\<lparr>riotArea := InputDeviceWrite (addr st') (transform st' (axis st')) (addrMask st') (riotArea m)\<rparr>\<rparr>)"

text \<open>
  The body of the \<^verbatim>\<open>switch\<close>: \<open>Inl err\<close> for a \<^verbatim>\<open>return\<close> inside a case,
  \<open>Inr hc'\<close> when control falls out of the switch to the recorder.
\<close>

definition handleEvent :: "HandController \<Rightarrow> Event \<Rightarrow> EventValue \<Rightarrow> error option + HandController" where
  "handleEvent hc event v =
    (case event of
       NoEvent \<Rightarrow> Inl None
     | Left \<Rightarrow> (case v of BoolValue b \<Rightarrow> Inr (moveAxis 0x40 b hc) | _ \<Rightarrow> Inl (Some (badType event ''bool'')))
     | Right \<Rightarrow> (case v of BoolValue b \<Rightarrow> Inr (moveAxis 0x80 b hc) | _ \<Rightarrow> Inl (Some (badType event ''bool'')))
     | Up \<Rightarrow> (case v of BoolValue b \<Rightarrow> Inr (moveAxis 0x10 b hc) | _ \<Rightarrow> Inl (Some (badType event ''bool'')))
     | Down \<Rightarrow> (case v of BoolValue b \<Rightarrow> Inr (moveAxis 0x20 b hc) | _ \<Rightarrow> Inl (Some (badType event ''bool'')))
     | Fire \<Rightarrow>
        (case v of
           BoolValue b \<Rightarrow>
             (let st = (hc_stick hc)\<lparr>button := b\<rparr>; m = hc_mem hc
              in Inr (hc\<lparr>hc_stick := st,
                         hc_mem := (if b then m\<lparr>tiaArea := InputDeviceWrite (buttonAddr st) 0x00 0x00 (tiaArea m)\<rparr>
                                 else if \<not> latchFireButton (hc_control hc)
                                      then m\<lparr>tiaArea := InputDeviceWrite (buttonAddr st) 0x80 0x00 (tiaArea m)\<rparr>
                                      else m)\<rparr>))
         | _ \<Rightarrow> Inl (Some (badType event ''bool'')))
     | PaddleFire \<Rightarrow>
        (case v of
           BoolValue b \<Rightarrow>
             (let p = hc_paddle hc; m = hc_mem hc; d = (if b then 0x00 else 0xff)
              in Inr (hc\<lparr>hc_mem := m\<lparr>riotArea := InputDeviceWrite (paddleButtonAddr p) d (buttonMask p) (riotArea m)\<rparr>\<rparr>))
         | _ \<Rightarrow> Inl (Some (badType event ''bool'')))
     | PaddleSet \<Rightarrow>
        (case v of
           Float32Value f \<Rightarrow> Inr (hc\<lparr>hc_paddle := (hc_paddle hc)\<lparr>resistance := 1.0 - f\<rparr>\<rparr>)
         | _ \<Rightarrow> Inl (Some (badType event ''float32'')))
     | KeyboardDown \<Rightarrow>
        (case v of
           RuneValue r \<Rightarrow>
             if r \<noteq> rune CHR ''1'' \<and> r \<noteq> rune CHR ''2'' \<and> r \<noteq> rune CHR ''3'' \<and> r \<noteq> rune CHR ''4''
                \<and> r \<noteq> rune CHR ''5'' \<and> r \<noteq> rune CHR ''6'' \<and> r \<noteq> rune CHR ''7'' \<and> r \<noteq> rune CHR ''8''
                \<and> r \<noteq> rune CHR ''9'' \<and> r \<noteq> rune CHR ''*'' \<and> r \<noteq> rune CHR ''#''
             then Inl (Some (badType event (''numeric rune or '' @ [CHR 39, CHR ''*'', CHR 39] @ '' or '' @ [CHR 39, CHR ''#'', CHR 39])))
             else Inr (hc\<lparr>hc_keyboard := (hc_keyboard hc)\<lparr>key := r\<rparr>\<rparr>)
         | _ \<Rightarrow> Inl (Some (badType event ''rune'')))
     | KeyboardUp \<Rightarrow>
        (case v of
           NilValue \<Rightarrow> Inr (hc\<lparr>hc_keyboard := (hc_keyboard hc)\<lparr>key := rune CHR '' ''\<rparr>\<rparr>)
         | _ \<Rightarrow> Inl (Some (badType event ''nil'')))
     | Unplug \<Rightarrow> Inl (Some (AtariError InputDeviceUnplugged [idValue (hc_id hc)]))
     | OtherEvent n \<Rightarrow> Inl (Some (AtariError UnknownInputEvent [idValue (hc_id hc), eventValue event])))"

text \<open>\<^verbatim>\<open>Handle\<close>: the switch, then the event is handed to the recorder if there is one.\<close>

definition Handle :: "HandController \<Rightarrow> Event \<Rightarrow> EventValue \<Rightarrow> error option \<times> HandController" where
  "Handle hc event v =
    (case handleEvent hc event v of
       Inl err \<Rightarrow> (err, hc)
     | Inr hc' \<Rightarrow>
        (case hc_recorder hc' of
           Some rec \<Rightarrow> (rec (hc_id hc') event v, hc')
         | None \<Rightarrow> (None, hc')))"

text \<open>The two constructors. The addresses are those of SWCHA, INPT0, INPT1, INPT4, INPT5.\<close>

definition SWCHA :: "16 word" where "SWCHA = 0x280"
definition INPT0 :: "16 word" where "INPT0 = 0x08"
definition INPT1 :: "16 word" where "INPT1 = 0x09"
definition INPT4 :: "16 word" where "INPT4 = 0x0c"
definition INPT5 :: "16 word" where "INPT5 = 0x0d"

definition NewHandController0 :: "inputMemory \<Rightarrow> ControlBits \<Rightarrow> HandController" where
  "NewHandController0 m c =
     \<lparr>hc_id = HandControllerZeroID, hc_recorder = None, hc_mem = m, hc_control = c,
      hc_stick = \<lparr>addr = SWCHA, buttonAddr = INPT4, axis = 0xf0, button = False,
               transform = (\<lambda>n. n), addrMask = 0x0f\<rparr>,
      hc_paddle = \<lparr>paddleAddr = INPT0, paddleButtonAddr = SWCHA, buttonMask = 0x7f,
                charge = 0, resistance = 0.0, ticks = 0\<rparr>,
      hc_keyboard = \<lparr>keyboardAddr = INPT0, key = 0\<rparr>,
      hc_ddr = 0x00\<rparr>"

definition NewHandController1 :: "inputMemory \<Rightarrow> ControlBits \<Rightarrow> HandController" where
  "NewHandController1 m c =
     \<lparr>hc_id = HandControllerOneID, hc_recorder = None, hc_mem = m, hc_control = c,
      hc_stick = \<lparr>addr = SWCHA, buttonAddr = INPT5, axis = 0xf0, button = False,
               transform = (\<lambda>n. drop_bit 4 n), addrMask = 0xf0\<rparr>,
      hc_paddle = \<lparr>paddleAddr = INPT1, paddleButtonAddr = SWCHA, buttonMask = 0xbf,
                charge = 0, resistance = 0.0, ticks = 0\<rparr>,
      hc_keyboard = \<lparr>keyboardAddr = INPT1, key = 0\<rparr>,
      hc_ddr = 0x00\<rparr>"

section \<open>Patch files\<close>

subsection \<open>The Go library functions the patcher calls\<close>
















subsection \<open>The patcher\<close>







subsection \<open>What a patch file denotes\<close>








section \<open>The stepper: \<^verbatim>\<open>hardware.VCS.Step\<close>\<close>

subsection \<open>The machine\<close>

text \<open>
  Modelled from the spec: the \<^verbatim>\<open>cpu\<close> package is not among the sources. \<section>3 gives
  the CPU the registers A, X, Y and SP (8 bits), PC (16 bits), the status flags and a
  RDY flag, which \<^verbatim>\<open>VCS.Step\<close> writes as \<^verbatim>\<open>vcs.MC.RdyFlg\<close>.
\<close>

record CPU =
  A :: "8 word"
  X :: "8 word"
  Y :: "8 word"
  SP :: "8 word"
  PC :: "16 word"
  Status :: "8 word"
  RdyFlg :: bool

definition registers :: "CPU \<Rightarrow> 8 word \<times> 8 word \<times> 8 word \<times> 8 word \<times> 16 word \<times> 8 word" where
  "registers c = (A c, X c, Y c, SP c, PC c, Status c)"

text \<open>
  The VCS owns the CPU and the rest of the machine. Memory, TIA, RIOT and television
  refer to one another by pointer (the chips hold their memory areas, the TIA holds the
  television), so they make up one component \<open>hw\<close> of a type \<open>'h\<close> that the stepper
  never looks into. The methods of the chips that \<^verbatim>\<open>VCS.Step\<close> calls are not among
  the sources and are parameters.
\<close>

record 'h VCS =
  MC :: CPU
  hw :: 'h

datatype chip = TIAChip | RIOTChip

record 'h hardware =
  ReadRIOTMemory :: "'h \<Rightarrow> 'h"
  RIOTStep :: "'h \<Rightarrow> 'h"
  StepVideoCycle :: "'h \<Rightarrow> bool \<times> 'h"
  ReadTIAMemory :: "'h \<Rightarrow> 'h"
  ChipWrite :: "chip \<Rightarrow> string \<Rightarrow> 8 word \<Rightarrow> 'h \<Rightarrow> 'h"

text \<open>
  The video cycle callback is the caller's closure: it receives the instruction result
  and may read and write the whole machine. \<^verbatim>\<open>cycleVCS\<close> drops the error it returns.
\<close>

type_synonym ('h, 'r) videoCycleCallback = "'r \<Rightarrow> 'h VCS \<Rightarrow> error option \<times> 'h VCS"

definition NullVideoCycleCallback :: "('h, 'r) videoCycleCallback" where
  "NullVideoCycleCallback r v = (None, v)"

text \<open>A call of a method of a chip that returns nothing, such as \<^verbatim>\<open>vcs.RIOT.Step()\<close>.\<close>

definition callChip :: "('h \<Rightarrow> 'h) \<Rightarrow> 'h VCS \<Rightarrow> 'h VCS" where
  "callChip f v = v\<lparr>hw := f (hw v)\<rparr>"

text \<open>\<^verbatim>\<open>vcs.MC.RdyFlg = vcs.TIA.StepVideoCycle()\<close>\<close>

definition stepVideoCycle :: "'h hardware \<Rightarrow> 'h VCS \<Rightarrow> 'h VCS" where
  "stepVideoCycle chips v =
     (case StepVideoCycle chips (hw v) of
        (rdy, h) \<Rightarrow> v\<lparr>MC := (MC v)\<lparr>RdyFlg := rdy\<rparr>, hw := h\<rparr>)"

text \<open>\<^verbatim>\<open>videoCycleCallback(r)\<close>, the error dropped.\<close>

definition callback :: "('h, 'r) videoCycleCallback \<Rightarrow> 'r \<Rightarrow> 'h VCS \<Rightarrow> 'h VCS" where
  "callback videoCycleCallback r v = (case videoCycleCallback r v of (err, v') \<Rightarrow> v')"

subsection \<open>One CPU cycle\<close>

text \<open>
  The state of one call of \<^verbatim>\<open>Step\<close>: the machine and the local counter \<^verbatim>\<open>cpuCycles\<close>
  that the closure \<^verbatim>\<open>cycleVCS\<close> captures.
\<close>

record 'h stepper =
  vcs :: "'h VCS"
  cpuCycles :: int

definition cycleVCS :: "'h hardware \<Rightarrow> ('h, 'r) videoCycleCallback \<Rightarrow> 'r \<Rightarrow> 'h stepper \<Rightarrow> 'h stepper" where
  "cycleVCS chips videoCycleCallback r s =
     (let n = cpuCycles s + 1;
          v1 = callChip (ReadRIOTMemory chips) (vcs s);
          v2 = callChip (RIOTStep chips) v1;
          v3 = stepVideoCycle chips v2;
          v4 = callback videoCycleCallback r v3;
          v5 = stepVideoCycle chips v4;
          v6 = callback videoCycleCallback r v5;
          v7 = callChip (ReadTIAMemory chips) v6;
          v8 = stepVideoCycle chips v7;
          v9 = callback videoCycleCallback r v8
      in \<lparr>vcs = v9, cpuCycles = n\<rparr>)"

subsection \<open>The CPU's side\<close>

text \<open>
  \<^verbatim>\<open>cpu.ExecuteInstruction(cycleVCS)\<close> is not among the sources. What \<^verbatim>\<open>Step\<close> relies on
  is its shape: the CPU works on the machine, calls the function it was given at the end
  of each of its cycles, passing the instruction result as it stands, and goes on
  according to the state it finds; in the end it returns a result or an error. An
  instruction is therefore a tree: \<open>Work f k\<close> changes the machine by \<open>f\<close> and goes on
  with \<open>k\<close> of the new state, \<open>EndCycle r p\<close> ends a cycle with the result \<open>r\<close> and goes
  on with \<open>p\<close>, \<open>Return\<close> ends the instruction.
\<close>

datatype ('m, 'r) instruction =
    Return "error + 'r"
  | Work "'m \<Rightarrow> 'm" "'m \<Rightarrow> ('m, 'r) instruction"
  | EndCycle 'r "('m, 'r) instruction"

primrec ExecuteInstruction ::
  "('r \<Rightarrow> 'h stepper \<Rightarrow> 'h stepper) \<Rightarrow> ('h VCS, 'r) instruction \<Rightarrow> 'h stepper \<Rightarrow> (error + 'r) \<times> 'h stepper" where
  "ExecuteInstruction cycleCallback (Return x) s = (x, s)"
| "ExecuteInstruction cycleCallback (Work f k) s =
     ExecuteInstruction cycleCallback (k (f (vcs s))) (s\<lparr>vcs := f (vcs s)\<rparr>)"
| "ExecuteInstruction cycleCallback (EndCycle r p) s =
     ExecuteInstruction cycleCallback p (cycleCallback r s)"

subsection \<open>\<^verbatim>\<open>Step\<close>\<close>

text \<open>
  The loop that cycles the hardware while the CPU is not ready. It need not end, so it
  is a partial function: \<open>None\<close> stands for a loop that runs for ever.
\<close>

partial_function (option) drain ::
  "'h hardware \<Rightarrow> ('h, 'r) videoCycleCallback \<Rightarrow> 'r \<Rightarrow> 'h stepper \<Rightarrow> 'h stepper option" where
  "drain chips videoCycleCallback r s =
     (if \<not> RdyFlg (MC (vcs s)) then drain chips videoCycleCallback r (cycleVCS chips videoCycleCallback r s)
      else Some s)"

text \<open>The machine after the three \<^verbatim>\<open>ChipWrite\<close> calls and the CPU's instruction.\<close>

definition afterInstruction ::
  "'h hardware \<Rightarrow> ('h, 'r) videoCycleCallback \<Rightarrow> ('h VCS, 'r) instruction \<Rightarrow> 'h VCS \<Rightarrow> (error + 'r) \<times> 'h stepper" where
  "afterInstruction chips videoCycleCallback instr v =
     (let h1 = ChipWrite chips TIAChip ''INPT4'' 0x80 (hw v);
          h2 = ChipWrite chips TIAChip ''INPT5'' 0x80 h1;
          h3 = ChipWrite chips RIOTChip ''SWCHA'' 0xFF h2
      in ExecuteInstruction (cycleVCS chips videoCycleCallback) instr
           \<lparr>vcs = v\<lparr>hw := h3\<rparr>, cpuCycles = 0\<rparr>)"

text \<open>
  \<^verbatim>\<open>Step\<close> returns the cycle count, the result (\<^verbatim>\<open>nil\<close> with an error) and the error;
  the model adds the state it leaves.
\<close>

definition Step ::
  "'h hardware \<Rightarrow> ('h, 'r) videoCycleCallback \<Rightarrow> ('h VCS, 'r) instruction \<Rightarrow> 'h VCS
     \<Rightarrow> (int \<times> 'r option \<times> error option \<times> 'h stepper) option" where
  "Step chips videoCycleCallback instr v =
     (case afterInstruction chips videoCycleCallback instr v of
        (Inl err, s) \<Rightarrow> Some (cpuCycles s, None, Some err, s)
      | (Inr r, s) \<Rightarrow>
          (case drain chips videoCycleCallback r s of
             None \<Rightarrow> None
           | Some s' \<Rightarrow> Some (cpuCycles s', Some r, None, s')))"

subsection \<open>Counting what the stepper does to the hardware\<close>

text \<open>
  The stepper does not look into the hardware, so what it does to it is read off the
  hardware itself. A tally is a number \<open>obs\<close> kept somewhere in the hardware that a call
  of \<^verbatim>\<open>ReadRIOTMemory\<close> raises by \<open>a\<close>, a call of \<^verbatim>\<open>RIOT.Step\<close> by \<open>b\<close>, a call of
  \<^verbatim>\<open>StepVideoCycle\<close> by \<open>c\<close>, a call of \<^verbatim>\<open>ReadTIAMemory\<close> by \<open>d\<close> and an invocation of
  the callback by \<open>e\<close>. With \<open>c = 1\<close> and the others 0 it counts colour clocks (as the
  TIA's \<^verbatim>\<open>videoCycles\<close> does), with \<open>e = 1\<close> it counts invocations of the callback.
\<close>

definition tallies ::
  "'h hardware \<Rightarrow> ('h, 'r) videoCycleCallback \<Rightarrow> ('h \<Rightarrow> nat) \<Rightarrow> nat \<Rightarrow> nat \<Rightarrow> nat \<Rightarrow> nat \<Rightarrow> nat \<Rightarrow> bool" where
  "tallies chips cb obs a b c d e \<longleftrightarrow>
     (\<forall>h. obs (ReadRIOTMemory chips h) = obs h + a)
     \<and> (\<forall>h. obs (RIOTStep chips h) = obs h + b)
     \<and> (\<forall>h. obs (snd (StepVideoCycle chips h)) = obs h + c)
     \<and> (\<forall>h. obs (ReadTIAMemory chips h) = obs h + d)
     \<and> (\<forall>r v. obs (hw (snd (cb r v))) = obs (hw v) + e)"

text \<open>A tally that the writes of the input registers leave as it is.\<close>

definition writesKeep :: "'h hardware \<Rightarrow> ('h \<Rightarrow> nat) \<Rightarrow> bool" where
  "writesKeep chips obs \<longleftrightarrow> (\<forall>k name x h. obs (ChipWrite chips k name x h) = obs h)"

text \<open>A tally that the CPU's own work leaves as it is, all through an instruction.\<close>

primrec quiet :: "('h \<Rightarrow> nat) \<Rightarrow> ('h VCS, 'r) instruction \<Rightarrow> bool" where
  "quiet obs (Return x) \<longleftrightarrow> True"
| "quiet obs (Work f k) \<longleftrightarrow> (\<forall>v. obs (hw (f v)) = obs (hw v)) \<and> (\<forall>v. quiet obs (k v))"
| "quiet obs (EndCycle r p) \<longleftrightarrow> quiet obs p"






text \<open>
  Predicates for the properties below: a callback that leaves the CPU's registers as they
  are, a stepper whose CPU is not ready, and the number of cycles after which RDY is
  high for the first time.
\<close>

definition keepsRegisters :: "('h, 'r) videoCycleCallback \<Rightarrow> bool" where
  "keepsRegisters cb \<longleftrightarrow> (\<forall>r v. registers (MC (snd (cb r v))) = registers (MC v))"

definition unready :: "'h stepper \<Rightarrow> bool" where
  "unready s \<longleftrightarrow> \<not> RdyFlg (MC (vcs s))"

definition firstReady :: "'h hardware \<Rightarrow> ('h, 'r) videoCycleCallback \<Rightarrow> 'r \<Rightarrow> 'h stepper \<Rightarrow> nat \<Rightarrow> bool" where
  "firstReady chips cb r s n \<longleftrightarrow>
     (\<forall>m<n. unready ((cycleVCS chips cb r ^^ m) s)) \<and> \<not> unready ((cycleVCS chips cb r ^^ n) s)"

subsection \<open>A machine to run the stepper on\<close>

text \<open>
  A hardware that keeps count of everything done to it: the colour clocks left on the
  scanline, and one counter for each method and for the callback. The TIA holds RDY low
  until the scanline is over.
\<close>

record bench =
  clocksLeft :: nat
  riotReads :: nat
  riotSteps :: nat
  tiaReads :: nat
  colorClocks :: nat
  callbacks :: nat
  inputWrites :: nat

definition benchHardware :: "bench hardware" where
  "benchHardware =
     \<lparr>ReadRIOTMemory = (\<lambda>h. h\<lparr>riotReads := riotReads h + 1\<rparr>),
      RIOTStep = (\<lambda>h. h\<lparr>riotSteps := riotSteps h + 1\<rparr>),
      StepVideoCycle =
        (\<lambda>h. (clocksLeft h \<le> 1, h\<lparr>clocksLeft := clocksLeft h - 1, colorClocks := colorClocks h + 1\<rparr>)),
      ReadTIAMemory = (\<lambda>h. h\<lparr>tiaReads := tiaReads h + 1\<rparr>),
      ChipWrite = (\<lambda>k name x h. h\<lparr>inputWrites := inputWrites h + 1\<rparr>)\<rparr>"

definition benchCallback :: "(bench, 'r) videoCycleCallback" where
  "benchCallback r v = (None, v\<lparr>hw := (hw v)\<lparr>callbacks := callbacks (hw v) + 1\<rparr>\<rparr>)"

definition resetCPU :: CPU where
  "resetCPU = \<lparr>A = 0, X = 0, Y = 0, SP = 0xfd, PC = 0xf000, Status = 0, RdyFlg = True\<rparr>"

text \<open>
  An instruction of three cycles that moves the program counter, as \<^verbatim>\<open>STA WSYNC\<close> does,
  a machine with twelve colour clocks left on the scanline, and the stepper as the
  instruction leaves it and as the loop leaves it.
\<close>

definition staWSYNC :: "(bench VCS, unit) instruction" where
  "staWSYNC =
     Work (\<lambda>v. v\<lparr>MC := (MC v)\<lparr>PC := PC (MC v) + 2\<rparr>\<rparr>)
       (\<lambda>v. EndCycle () (EndCycle () (EndCycle () (Return (Inr ())))))"

definition wsyncMachine :: "bench VCS" where
  "wsyncMachine =
     \<lparr>MC = resetCPU,
      hw = \<lparr>clocksLeft = 12, riotReads = 0, riotSteps = 0, tiaReads = 0, colorClocks = 0,
            callbacks = 0, inputWrites = 0\<rparr>\<rparr>"

definition stalled :: "bench stepper" where
  "stalled =
     \<lparr>vcs = \<lparr>MC = resetCPU\<lparr>PC := 0xf002, RdyFlg := False\<rparr>,
             hw = \<lparr>clocksLeft = 3, riotReads = 3, riotSteps = 3, tiaReads = 3, colorClocks = 9,
                   callbacks = 9, inputWrites = 3\<rparr>\<rparr>,
      cpuCycles = 3\<rparr>"

definition released :: "bench stepper" where
  "released =
     \<lparr>vcs = \<lparr>MC = resetCPU\<lparr>PC := 0xf002, RdyFlg := True\<rparr>,
             hw = \<lparr>clocksLeft = 0, riotReads = 4, riotSteps = 4, tiaReads = 4, colorClocks = 12,
                   callbacks = 12, inputWrites = 3\<rparr>\<rparr>,
      cpuCycles = 4\<rparr>"

section \<open>The TIA: \<^verbatim>\<open>tia.TIA.Step\<close>\<close>

subsection \<open>State\<close>

text \<open>
  Modelled from the spec: the types of the TIA's fields are declared outside the sources.
  \<^item> \<section>4.1: a chip has an inbox of at most one pending CPU write, and \<^verbatim>\<open>ChipRead\<close>
    consumes it. The inbox is \<open>chipMem\<close>.
  \<^item> \<section>6: the pixel of a signal is a palette index of 8 bits or the sentinel
    \<^verbatim>\<open>VideoBlack\<close>. A colour signal is an integer, the sentinel is \<open>-1\<close>.
  \<^item> \<section>4.4: the HSYNC counter increments; \<open>hsync\<close> is a number, \<^verbatim>\<open>Tick\<close> adds one,
    \<^verbatim>\<open>Reset\<close> sets it to 0 and \<^verbatim>\<open>Count\<close> reads it.
  The counter \<open>hmoveCt\<close> is compared with \<^verbatim>\<open>0xff\<close> and passed on as a byte: 8 bits.
  The phase clock, the delay queue, the video and audio subsystems and the television
  are of types \<open>'p\<close>, \<open>'d\<close>, \<open>'v\<close>, \<open>'a\<close> and \<open>'t\<close> that \<^verbatim>\<open>Step\<close> does not look into;
  \<open>rsyncEvent\<close> is a pointer that \<^verbatim>\<open>Step\<close> only tests for \<^verbatim>\<open>nil\<close>, kept as the label
  of the pending event.
\<close>

record ChipData =
  Name :: string
  Value :: "8 word"

definition VideoBlack :: int where
  "VideoBlack = - 1"

definition ColorSignal :: "8 word \<Rightarrow> int" where
  "ColorSignal c = uint c"

record SignalAttributes =
  VSync :: bool
  VBlank :: bool
  CBurst :: bool
  HSync :: bool
  Pixel :: int
  AltPixel :: int
  AudioUpdate :: bool
  AudioData :: "8 word"
  HSyncSimple :: bool

record ('p, 'd, 'v, 'a, 't) TIA =
  videoCycles :: int
  chipMem :: "ChipData option"
  pclk :: 'p
  hsync :: nat
  Delay :: 'd
  Video :: 'v
  Audio :: 'a
  tv :: 't
  sig :: SignalAttributes
  hblank :: bool
  wsync :: bool
  hmoveLatch :: bool
  hmoveCt :: "8 word"
  rsyncEvent :: "string option"

text \<open>The TIA's own methods that \<^verbatim>\<open>Step\<close> hands to the delay queue.\<close>

datatype future =
    newScanline
  | futureResetHSYNC
  | futureResetColorBurst
  | futureResetHBlank

text \<open>
  The functions that \<^verbatim>\<open>Step\<close> calls and that are not among the sources. \<^verbatim>\<open>UpdateTIA\<close>
  is a method of the TIA, and \<^verbatim>\<open>Delay.Tick\<close> runs the methods that were scheduled, so
  both may change any field. A method of the video or audio subsystem may read the TIA
  and returns its own new state, together with the delay queue where \<^verbatim>\<open>Step\<close> passes
  the queue to it. The \<^verbatim>\<open>Update\<close> functions return whether the write still waits to
  be serviced.
\<close>

record ('p, 'd, 'v, 'a, 't) parts =
  UpdateTIA :: "ChipData \<Rightarrow> ('p, 'd, 'v, 'a, 't) TIA \<Rightarrow> bool \<times> ('p, 'd, 'v, 'a, 't) TIA"
  DelayTick :: "('p, 'd, 'v, 'a, 't) TIA \<Rightarrow> ('p, 'd, 'v, 'a, 't) TIA"
  Schedule :: "nat \<Rightarrow> future \<Rightarrow> string \<Rightarrow> 'd \<Rightarrow> 'd"
  pclkTick :: "'p \<Rightarrow> 'p"
  Phi2 :: "'p \<Rightarrow> bool"
  UpdatePlayfield :: "('p, 'd, 'v, 'a, 't) TIA \<Rightarrow> ChipData \<Rightarrow> bool \<times> 'd \<times> 'v"
  UpdateSpritePositioning :: "('p, 'd, 'v, 'a, 't) TIA \<Rightarrow> ChipData \<Rightarrow> bool \<times> 'v"
  UpdateColor :: "('p, 'd, 'v, 'a, 't) TIA \<Rightarrow> ChipData \<Rightarrow> bool \<times> 'v"
  VideoTick :: "('p, 'd, 'v, 'a, 't) TIA \<Rightarrow> bool \<Rightarrow> bool \<Rightarrow> 8 word \<Rightarrow> 'v"
  VideoPixel :: "('p, 'd, 'v, 'a, 't) TIA \<Rightarrow> (8 word \<times> int) \<times> 'v"
  UpdateSpriteHMOVE :: "('p, 'd, 'v, 'a, 't) TIA \<Rightarrow> ChipData \<Rightarrow> bool \<times> 'd \<times> 'v"
  UpdateSpriteVariations :: "('p, 'd, 'v, 'a, 't) TIA \<Rightarrow> ChipData \<Rightarrow> bool \<times> 'v"
  UpdateSpritePixels :: "('p, 'd, 'v, 'a, 't) TIA \<Rightarrow> ChipData \<Rightarrow> bool \<times> 'v"
  AudioUpdateRegisters :: "('p, 'd, 'v, 'a, 't) TIA \<Rightarrow> ChipData \<Rightarrow> bool \<times> 'a"
  AudioMix :: "('p, 'd, 'v, 'a, 't) TIA \<Rightarrow> (bool \<times> 8 word) \<times> 'a"
  tvSignal :: "SignalAttributes \<Rightarrow> 't \<Rightarrow> error option \<times> 't"

subsection \<open>Helpers for the repeated patterns of \<^verbatim>\<open>Step\<close>\<close>

text \<open>\<^verbatim>\<open>tia.mem.ChipRead()\<close>: whether a write was pending, the write, and the emptied inbox.\<close>

definition ChipRead :: "('p, 'd, 'v, 'a, 't) TIA \<Rightarrow> bool \<times> ChipData \<times> ('p, 'd, 'v, 'a, 't) TIA" where
  "ChipRead t =
     (case chipMem t of
        None \<Rightarrow> (False, \<lparr>Name = [], Value = 0\<rparr>, t)
      | Some d \<Rightarrow> (True, d, t\<lparr>chipMem := None\<rparr>))"

text \<open>\<^verbatim>\<open>if serviceMemory { serviceMemory = f(...) }\<close>\<close>

definition whenService :: "bool \<Rightarrow> ('s \<Rightarrow> bool \<times> 's) \<Rightarrow> 's \<Rightarrow> bool \<times> 's" where
  "whenService serviceMemory f t = (if serviceMemory then f t else (serviceMemory, t))"

definition inVideo ::
  "(('p, 'd, 'v, 'a, 't) TIA \<Rightarrow> bool \<times> 'v) \<Rightarrow> ('p, 'd, 'v, 'a, 't) TIA \<Rightarrow> bool \<times> ('p, 'd, 'v, 'a, 't) TIA" where
  "inVideo f t = (case f t of (b, v) \<Rightarrow> (b, t\<lparr>Video := v\<rparr>))"

definition inVideoDelay ::
  "(('p, 'd, 'v, 'a, 't) TIA \<Rightarrow> bool \<times> 'd \<times> 'v) \<Rightarrow> ('p, 'd, 'v, 'a, 't) TIA \<Rightarrow> bool \<times> ('p, 'd, 'v, 'a, 't) TIA" where
  "inVideoDelay f t = (case f t of (b, d, v) \<Rightarrow> (b, t\<lparr>Delay := d, Video := v\<rparr>))"

definition inAudio ::
  "(('p, 'd, 'v, 'a, 't) TIA \<Rightarrow> bool \<times> 'a) \<Rightarrow> ('p, 'd, 'v, 'a, 't) TIA \<Rightarrow> bool \<times> ('p, 'd, 'v, 'a, 't) TIA" where
  "inAudio f t = (case f t of (b, a) \<Rightarrow> (b, t\<lparr>Audio := a\<rparr>))"

text \<open>\<^verbatim>\<open>tia.Delay.Schedule(delay, payload, label)\<close>\<close>

definition schedule ::
  "('p, 'd, 'v, 'a, 't) parts \<Rightarrow> nat \<Rightarrow> future \<Rightarrow> string \<Rightarrow> ('p, 'd, 'v, 'a, 't) TIA \<Rightarrow> ('p, 'd, 'v, 'a, 't) TIA" where
  "schedule ps delay payload label t = t\<lparr>Delay := Schedule ps delay payload label (Delay t)\<rparr>"

subsection \<open>The sub-steps of \<^verbatim>\<open>Step\<close>\<close>

text \<open>
  The comment at the head of \<^verbatim>\<open>Step\<close> divides it into sub-steps; the model follows the
  division. First: count the video cycle, service the TIA's memory (A), tick the phase
  clock (1) and the delayed events (2). The result carries the local variables
  \<^verbatim>\<open>serviceMemory\<close> and \<^verbatim>\<open>memoryData\<close>.
\<close>

definition serviceTIA ::
  "('p, 'd, 'v, 'a, 't) parts \<Rightarrow> bool \<Rightarrow> ('p, 'd, 'v, 'a, 't) TIA
     \<Rightarrow> bool \<times> ChipData \<times> ('p, 'd, 'v, 'a, 't) TIA" where
  "serviceTIA ps serviceMemory t =
     (let t0 = t\<lparr>videoCycles := videoCycles t + 1\<rparr>;
          (sm1, memoryData, t1) =
             (if serviceMemory then ChipRead t0 else (serviceMemory, \<lparr>Name = [], Value = 0\<rparr>, t0));
          (sm2, t2) = whenService sm1 (UpdateTIA ps memoryData) t1;
          (sm3, t3) = whenService sm2 (inVideoDelay (\<lambda>t. UpdatePlayfield ps t memoryData)) t2;
          t4 = t3\<lparr>pclk := pclkTick ps (pclk t3)\<rparr>;
          t5 = DelayTick ps t4
      in (sm3, memoryData, t5))"

text \<open>The constant \<^verbatim>\<open>hsyncDelay\<close>.\<close>

definition hsyncDelay :: nat where
  "hsyncDelay = 3"

text \<open>
  Sub-step 3: on the rising edge of Phi2 the HSYNC counter ticks and the new count is
  decoded.
\<close>

definition tickHsync :: "('p, 'd, 'v, 'a, 't) parts \<Rightarrow> ('p, 'd, 'v, 'a, 't) TIA \<Rightarrow> ('p, 'd, 'v, 'a, 't) TIA" where
  "tickHsync ps t =
     (if Phi2 ps (pclk t) then
        (let t1 = t\<lparr>hsync := hsync t + 1\<rparr> in
         if hsync t1 = 57 then t1\<lparr>hsync := 0, hmoveLatch := False\<rparr>
         else if hsync t1 = 56 then
           (if rsyncEvent t1 = None then schedule ps hsyncDelay newScanline ''RESET'' t1 else t1)
         else if hsync t1 = 4 then t1\<lparr>sig := (sig t1)\<lparr>HSync := True\<rparr>\<rparr>
         else if hsync t1 = 8 then schedule ps hsyncDelay futureResetHSYNC ''RHS (TV)'' t1
         else if hsync t1 = 12 then schedule ps hsyncDelay futureResetColorBurst ''RCB (TV)'' t1
         else if hsync t1 = 16 then
           (if \<not> hmoveLatch t1 then schedule ps hsyncDelay futureResetHBlank ''HRB'' t1 else t1)
         else if hsync t1 = 18 then
           (if hmoveLatch t1 then schedule ps hsyncDelay futureResetHBlank ''LHRB'' t1 else t1)
         else t1)
      else t)"

text \<open>
  Service of the video memory (B), the tick of the sprites (4) and the adjustment of the
  HMOVE counter (5).
\<close>

definition serviceVideo ::
  "('p, 'd, 'v, 'a, 't) parts \<Rightarrow> bool \<Rightarrow> ChipData \<Rightarrow> ('p, 'd, 'v, 'a, 't) TIA
     \<Rightarrow> bool \<times> ('p, 'd, 'v, 'a, 't) TIA" where
  "serviceVideo ps serviceMemory memoryData t =
     (let (sm1, t1) = whenService serviceMemory (inVideo (\<lambda>t. UpdateSpritePositioning ps t memoryData)) t;
          (sm2, t2) = whenService sm1 (inVideo (\<lambda>t. UpdateColor ps t memoryData)) t1;
          isHmove = Phi2 ps (pclk t2);
          t3 = t2\<lparr>Video := VideoTick ps t2 (\<not> hblank t2) isHmove (hmoveCt t2)\<rparr>;
          t4 = (if isHmove then (if hmoveCt t3 \<noteq> 0xff then t3\<lparr>hmoveCt := hmoveCt t3 - 1\<rparr> else t3)
                else t3)
      in (sm2, t4))"

text \<open>The resolution of the pixel.\<close>

definition resolvePixel :: "('p, 'd, 'v, 'a, 't) parts \<Rightarrow> ('p, 'd, 'v, 'a, 't) TIA \<Rightarrow> ('p, 'd, 'v, 'a, 't) TIA" where
  "resolvePixel ps t =
     (case VideoPixel ps t of
        ((pixelColor, debugColor), v) \<Rightarrow>
          (let t1 = t\<lparr>Video := v\<rparr>;
               t2 = t1\<lparr>sig := (sig t1)\<lparr>AltPixel := debugColor\<rparr>\<rparr>
           in if hblank t2 then t2\<lparr>sig := (sig t2)\<lparr>Pixel := VideoBlack\<rparr>\<rparr>
              else t2\<lparr>sig := (sig t2)\<lparr>Pixel := ColorSignal pixelColor\<rparr>\<rparr>))"

text \<open>Service of the remaining registers (C) and the audio mix.\<close>

definition serviceAudio ::
  "('p, 'd, 'v, 'a, 't) parts \<Rightarrow> bool \<Rightarrow> ChipData \<Rightarrow> ('p, 'd, 'v, 'a, 't) TIA \<Rightarrow> ('p, 'd, 'v, 'a, 't) TIA" where
  "serviceAudio ps serviceMemory memoryData t =
     (let (sm1, t1) = whenService serviceMemory (inVideoDelay (\<lambda>t. UpdateSpriteHMOVE ps t memoryData)) t;
          (sm2, t2) = whenService sm1 (inVideo (\<lambda>t. UpdateSpriteVariations ps t memoryData)) t1;
          (sm3, t3) = whenService sm2 (inVideo (\<lambda>t. UpdateSpritePixels ps t memoryData)) t2;
          (sm4, t4) = whenService sm3 (inAudio (\<lambda>t. AudioUpdateRegisters ps t memoryData)) t3
      in (case AudioMix ps t4 of
            ((update, d), a) \<Rightarrow> t4\<lparr>Audio := a, sig := (sig t4)\<lparr>AudioUpdate := update, AudioData := d\<rparr>\<rparr>))"

text \<open>
  Sub-step 6: the signal goes to the television. An error of the television ends the
  step, unless it is \<^verbatim>\<open>TVOutOfSpec\<close>. The result is RDY (\<^verbatim>\<open>!tia.wsync\<close>) and the error.
\<close>

definition sendSignal ::
  "('p, 'd, 'v, 'a, 't) parts \<Rightarrow> ('p, 'd, 'v, 'a, 't) TIA \<Rightarrow> (bool \<times> error option) \<times> ('p, 'd, 'v, 'a, 't) TIA" where
  "sendSignal ps t =
     (case tvSignal ps (sig t) (tv t) of
        (result, tv') \<Rightarrow>
          (let t1 = t\<lparr>tv := tv'\<rparr>;
               finished = ((\<not> wsync t1, None), t1\<lparr>sig := (sig t1)\<lparr>HSyncSimple := False\<rparr>\<rparr>)
           in (case result of
                 Some err \<Rightarrow> if \<not> Is err TVOutOfSpec then ((\<not> wsync t1, Some err), t1) else finished
               | None \<Rightarrow> finished)))"

text \<open>The step up to the resolution of the pixel, up to the signal, and the whole step.\<close>

definition beforePixel ::
  "('p, 'd, 'v, 'a, 't) parts \<Rightarrow> bool \<Rightarrow> ('p, 'd, 'v, 'a, 't) TIA
     \<Rightarrow> bool \<times> ChipData \<times> ('p, 'd, 'v, 'a, 't) TIA" where
  "beforePixel ps serviceMemory t =
     (case serviceTIA ps serviceMemory t of
        (sm1, memoryData, t1) \<Rightarrow>
          (case serviceVideo ps sm1 memoryData (tickHsync ps t1) of
             (sm2, t2) \<Rightarrow> (sm2, memoryData, t2)))"

definition beforeSignal ::
  "('p, 'd, 'v, 'a, 't) parts \<Rightarrow> bool \<Rightarrow> ('p, 'd, 'v, 'a, 't) TIA \<Rightarrow> ('p, 'd, 'v, 'a, 't) TIA" where
  "beforeSignal ps serviceMemory t =
     (case beforePixel ps serviceMemory t of
        (sm2, memoryData, t2) \<Rightarrow> serviceAudio ps sm2 memoryData (resolvePixel ps t2))"

definition TIAStep ::
  "('p, 'd, 'v, 'a, 't) parts \<Rightarrow> bool \<Rightarrow> ('p, 'd, 'v, 'a, 't) TIA \<Rightarrow> (bool \<times> error option) \<times> ('p, 'd, 'v, 'a, 't) TIA" where
  "TIAStep ps serviceMemory t = sendSignal ps (beforeSignal ps serviceMemory t)"

text \<open>
  The fields that no method of the video or audio subsystem can reach: a method returns
  its own new state, and \<^verbatim>\<open>Step\<close> stores it.
\<close>

definition latches ::
  "('p, 'd, 'v, 'a, 't) TIA
     \<Rightarrow> 'p \<times> nat \<times> 't \<times> SignalAttributes \<times> bool \<times> bool \<times> bool \<times> 8 word \<times> string option" where
  "latches t = (pclk t, hsync t, tv t, sig t, hblank t, wsync t, hmoveLatch t, hmoveCt t, rsyncEvent t)"

text \<open>A run of steps, one for each value of \<^verbatim>\<open>serviceMemory\<close>, whatever each step returns.\<close>

fun TIASteps ::
  "('p, 'd, 'v, 'a, 't) parts \<Rightarrow> bool list \<Rightarrow> ('p, 'd, 'v, 'a, 't) TIA \<Rightarrow> ('p, 'd, 'v, 'a, 't) TIA" where
  "TIASteps ps [] t = t"
| "TIASteps ps (serviceMemory # rest) t = TIASteps ps rest (snd (TIAStep ps serviceMemory t))"

text \<open>
  Parts under which no HMOVE takes effect: neither the service of the TIA's registers nor
  a delayed event writes \<open>hmoveCt\<close>.
\<close>

definition noHMOVE :: "('p, 'd, 'v, 'a, 't) parts \<Rightarrow> bool" where
  "noHMOVE ps \<longleftrightarrow>
     (\<forall>d t. hmoveCt (snd (UpdateTIA ps d t)) = hmoveCt t) \<and> (\<forall>t. hmoveCt (DelayTick ps t) = hmoveCt t)"

text \<open>
  A TIA to run the step on. The phase clock counts 0 to 3 and Phi2 rises at 3; the delay
  queue is the list of what was scheduled and nothing fires; a write to WSYNC is the only
  register the TIA itself services; the video subsystem resolves every pixel to the
  colour \<^verbatim>\<open>0x1e\<close> with the debug colour 7; the television answers every signal with the
  error it holds.
\<close>

definition plainParts :: "(nat, (nat \<times> future \<times> string) list, unit, unit, error option) parts" where
  "plainParts =
     \<lparr>UpdateTIA = (\<lambda>d t. if Name d = ''WSYNC'' then (False, t\<lparr>wsync := True\<rparr>) else (True, t)),
      DelayTick = (\<lambda>t. t),
      Schedule = (\<lambda>n f l d. d @ [(n, f, l)]),
      pclkTick = (\<lambda>p. (p + 1) mod 4),
      Phi2 = (\<lambda>p. p = 3),
      UpdatePlayfield = (\<lambda>t d. (True, Delay t, Video t)),
      UpdateSpritePositioning = (\<lambda>t d. (True, Video t)),
      UpdateColor = (\<lambda>t d. (True, Video t)),
      VideoTick = (\<lambda>t visible isHmove ct. Video t),
      VideoPixel = (\<lambda>t. ((0x1e, 7), Video t)),
      UpdateSpriteHMOVE = (\<lambda>t d. (True, Delay t, Video t)),
      UpdateSpriteVariations = (\<lambda>t d. (True, Video t)),
      UpdateSpritePixels = (\<lambda>t d. (True, Video t)),
      AudioUpdateRegisters = (\<lambda>t d. (True, Audio t)),
      AudioMix = (\<lambda>t. ((False, 0), Audio t)),
      tvSignal = (\<lambda>s answer. (answer, answer))\<rparr>"

definition powerOn :: "(nat, (nat \<times> future \<times> string) list, unit, unit, error option) TIA" where
  "powerOn =
     \<lparr>videoCycles = 0, chipMem = None, pclk = 2, hsync = 0, Delay = [], Video = (), Audio = (),
      tv = None,
      sig = \<lparr>VSync = False, VBlank = False, CBurst = False, HSync = False, Pixel = 0, AltPixel = 0,
             AudioUpdate = False, AudioData = 0, HSyncSimple = True\<rparr>,
      hblank = True, wsync = False, hmoveLatch = False, hmoveCt = 0xff, rsyncEvent = None\<rparr>"

definition tiaAt :: "nat \<Rightarrow> nat \<Rightarrow> bool \<Rightarrow> (nat, (nat \<times> future \<times> string) list, unit, unit, error option) TIA" where
  "tiaAt p h latch = powerOn\<lparr>pclk := p, hsync := h, hmoveLatch := latch\<rparr>"

chapter \<open>Properties\<close>

section \<open>The stepper\<close>

subsection \<open>One cycle\<close>

lemma cycleVCS_cpuCycles: "cpuCycles (cycleVCS chips cb r s) = cpuCycles s + 1"
  by (simp add: cycleVCS_def Let_def)

lemma stepVideoCycle_registers: "registers (MC (stepVideoCycle chips v)) = registers (MC v)"
  by (simp add: stepVideoCycle_def registers_def split: prod.splits)

lemma callChip_registers: "registers (MC (callChip f v)) = registers (MC v)"
  by (simp add: callChip_def registers_def)

lemma callback_registers:
  assumes "keepsRegisters cb"
  shows "registers (MC (callback cb r v)) = registers (MC v)"
proof (cases "cb r v")
  case (Pair err v')
  have "registers (MC (snd (cb r v))) = registers (MC v)"
    using assms by (simp add: keepsRegisters_def)
  then show ?thesis using Pair by (simp add: callback_def)
qed

lemma cycleVCS_registers:
  assumes "keepsRegisters cb"
  shows "registers (MC (vcs (cycleVCS chips cb r s))) = registers (MC (vcs s))"
  unfolding cycleVCS_def Let_def
  by (simp add: callback_registers [OF assms] stepVideoCycle_registers callChip_registers)

text \<open>What a tally reads after each kind of call, and after a cycle.\<close>

lemma callChip_obs: "obs (hw (callChip f v)) = obs (f (hw v))"
  by (simp add: callChip_def)

lemma stepVideoCycle_obs: "obs (hw (stepVideoCycle chips v)) = obs (snd (StepVideoCycle chips (hw v)))"
  by (simp add: stepVideoCycle_def split: prod.splits)

lemma callback_obs: "obs (hw (callback cb r v)) = obs (hw (snd (cb r v)))"
  by (simp add: callback_def split: prod.splits)

lemma cycleVCS_tally:
  assumes "tallies chips cb obs a b c d e"
  shows "obs (hw (vcs (cycleVCS chips cb r s))) = obs (hw (vcs s)) + (a + b + 3 * c + d + 3 * e)"
proof -
  have ra: "\<And>h. obs (ReadRIOTMemory chips h) = obs h + a"
    and rb: "\<And>h. obs (RIOTStep chips h) = obs h + b"
    and rc: "\<And>h. obs (snd (StepVideoCycle chips h)) = obs h + c"
    and rd: "\<And>h. obs (ReadTIAMemory chips h) = obs h + d"
    and re: "\<And>r v. obs (hw (snd (cb r v))) = obs (hw v) + e"
    using assms by (simp_all add: tallies_def)
  show ?thesis
    unfolding cycleVCS_def Let_def
    by (simp add: callChip_obs stepVideoCycle_obs callback_obs ra rb rc rd re)
qed

lemma cycles_cpuCycles: "cpuCycles ((cycleVCS chips cb r ^^ n) s) = cpuCycles s + int n"
  by (induction n) (simp_all add: cycleVCS_cpuCycles)

lemma cycles_registers:
  "keepsRegisters cb \<Longrightarrow> registers (MC (vcs ((cycleVCS chips cb r ^^ n) s))) = registers (MC (vcs s))"
  by (induction n) (simp_all add: cycleVCS_registers)

lemma cycles_tally:
  assumes "tallies chips cb obs a b c d e"
  shows "obs (hw (vcs ((cycleVCS chips cb r ^^ n) s))) = obs (hw (vcs s)) + n * (a + b + 3 * c + d + 3 * e)"
  by (induction n) (simp_all add: cycleVCS_tally [OF assms])


subsection \<open>The loop that waits for RDY\<close>

text \<open>The loop returns after exactly the number of cycles it takes for RDY to come back.\<close>

lemma drain_returns:
  "\<lbrakk>\<And>m. m < n \<Longrightarrow> unready ((cycleVCS chips cb r ^^ m) s); \<not> unready ((cycleVCS chips cb r ^^ n) s)\<rbrakk>
     \<Longrightarrow> drain chips cb r s = Some ((cycleVCS chips cb r ^^ n) s)"
proof (induction n arbitrary: s)
  case 0
  then show ?case by (simp add: drain.simps unready_def)
next
  case (Suc n)
  have low: "unready s" using Suc.prems(1) [of 0] by simp
  have "drain chips cb r (cycleVCS chips cb r s) = Some ((cycleVCS chips cb r ^^ n) (cycleVCS chips cb r s))"
  proof (rule Suc.IH)
    fix m assume "m < n"
    then show "unready ((cycleVCS chips cb r ^^ m) (cycleVCS chips cb r s))"
      using Suc.prems(1) [of "Suc m"] by (simp add: funpow_swap1)
  next
    show "\<not> unready ((cycleVCS chips cb r ^^ n) (cycleVCS chips cb r s))"
      using Suc.prems(2) by (simp add: funpow_swap1)
  qed
  then show ?case using low
    by (subst drain.simps) (simp add: unready_def funpow_swap1)
qed

text \<open>If the loop returns, RDY has come back after some number of cycles.\<close>

lemma drain_Some:
  "drain chips cb r s = Some s' \<Longrightarrow>
     \<exists>n. s' = (cycleVCS chips cb r ^^ n) s \<and> \<not> unready s'"
proof (induction rule: drain.raw_induct [where P = "\<lambda>chips cb r s s'. \<exists>n. s' = (cycleVCS chips cb r ^^ n) s \<and> \<not> unready s'", rotated 1, consumes 1])
  case (1 drain' chips cb r s s')
  show ?case
  proof (cases "RdyFlg (MC (vcs s))")
    case True
    then have "s' = s" using 1(2) by simp
    then show ?thesis using True by (auto simp: unready_def intro: exI [of _ 0])
  next
    case False
    then have "drain' chips cb r (cycleVCS chips cb r s) = Some s'" using 1(2) by simp
    from 1(1) [OF this] obtain n where "s' = (cycleVCS chips cb r ^^ n) (cycleVCS chips cb r s)" "\<not> unready s'"
      by blast
    then show ?thesis by (auto simp: funpow_swap1 intro: exI [of _ "Suc n"])
  qed
qed

lemma drain_None:
  "drain chips cb r s = None \<longleftrightarrow> (\<forall>n. unready ((cycleVCS chips cb r ^^ n) s))"
proof
  assume none: "drain chips cb r s = None"
  show "\<forall>n. unready ((cycleVCS chips cb r ^^ n) s)"
  proof (rule ccontr)
    assume "\<not> (\<forall>n. unready ((cycleVCS chips cb r ^^ n) s))"
    then obtain k where k: "\<not> unready ((cycleVCS chips cb r ^^ k) s)" by blast
    define n where "n = (LEAST k. \<not> unready ((cycleVCS chips cb r ^^ k) s))"
    have hi: "\<not> unready ((cycleVCS chips cb r ^^ n) s)"
      unfolding n_def using k by (rule LeastI)
    have lo: "\<And>m. m < n \<Longrightarrow> unready ((cycleVCS chips cb r ^^ m) s)"
      unfolding n_def using not_less_Least by blast
    from drain_returns [OF lo hi] none show False by simp
  qed
next
  assume all: "\<forall>n. unready ((cycleVCS chips cb r ^^ n) s)"
  show "drain chips cb r s = None"
  proof (cases "drain chips cb r s")
    case None
    then show ?thesis .
  next
    case (Some s')
    from drain_Some [OF this] all show ?thesis by auto
  qed
qed

subsection \<open>A tally through a whole instruction\<close>

text \<open>
  While the CPU executes an instruction, a tally that its work leaves alone moves with
  the cycle counter: the weight of a cycle for every cycle counted.
\<close>

lemma ExecuteInstruction_tally:
  assumes "tallies chips cb obs a b c d e"
  shows "quiet obs instr \<Longrightarrow> 0 \<le> cpuCycles s \<Longrightarrow>
         int (obs (hw (vcs s))) = base + cpuCycles s * int (a + b + 3 * c + d + 3 * e) \<Longrightarrow>
         0 \<le> cpuCycles (snd (ExecuteInstruction (cycleVCS chips cb) instr s))
         \<and> int (obs (hw (vcs (snd (ExecuteInstruction (cycleVCS chips cb) instr s))))) =
             base + cpuCycles (snd (ExecuteInstruction (cycleVCS chips cb) instr s))
                      * int (a + b + 3 * c + d + 3 * e)"
proof (induction instr arbitrary: s)
  case (Return x)
  then show ?case by simp
next
  case (Work f k)
  have q: "quiet obs (k (f (vcs s)))" and keep: "obs (hw (f (vcs s))) = obs (hw (vcs s))"
    using Work.prems(1) by simp_all
  show ?case
    using Work.IH [of "k (f (vcs s))" "s\<lparr>vcs := f (vcs s)\<rparr>"] q keep Work.prems(2,3)
    by simp
next
  case (EndCycle r p)
  have "int (obs (hw (vcs (cycleVCS chips cb r s)))) =
          base + cpuCycles (cycleVCS chips cb r s) * int (a + b + 3 * c + d + 3 * e)"
    using EndCycle.prems(3) by (simp add: cycleVCS_tally [OF assms] cycleVCS_cpuCycles algebra_simps)
  moreover have "0 \<le> cpuCycles (cycleVCS chips cb r s)"
    using EndCycle.prems(2) by (simp add: cycleVCS_cpuCycles)
  ultimately show ?case
    using EndCycle.IH [of "cycleVCS chips cb r s"] EndCycle.prems(1) by simp
qed

lemma afterInstruction_tally:
  assumes "tallies chips cb obs a b c d e" and "writesKeep chips obs" and "quiet obs instr"
  shows "0 \<le> cpuCycles (snd (afterInstruction chips cb instr v))
         \<and> int (obs (hw (vcs (snd (afterInstruction chips cb instr v))))) =
             int (obs (hw v)) + cpuCycles (snd (afterInstruction chips cb instr v))
                      * int (a + b + 3 * c + d + 3 * e)"
  unfolding afterInstruction_def Let_def
  using assms(2)
  by (intro ExecuteInstruction_tally [OF assms(1,3)]) (simp_all add: writesKeep_def)

lemma Step_tally:
  assumes "tallies chips cb obs a b c d e" and "writesKeep chips obs" and "quiet obs instr"
    and st: "Step chips cb instr v = Some (n, res, err, s')"
  shows "n = cpuCycles s' \<and> 0 \<le> n
         \<and> int (obs (hw (vcs s'))) = int (obs (hw v)) + n * int (a + b + 3 * c + d + 3 * e)"
proof -
  obtain x s where ai: "afterInstruction chips cb instr v = (x, s)"
    by (cases "afterInstruction chips cb instr v")
  have inv: "0 \<le> cpuCycles s \<and>
       int (obs (hw (vcs s))) = int (obs (hw v)) + cpuCycles s * int (a + b + 3 * c + d + 3 * e)"
    using afterInstruction_tally [OF assms(1,2,3), of v] ai by simp
  show ?thesis
  proof (cases x)
    case (Inl e')
    then show ?thesis using st ai inv by (auto simp: Step_def)
  next
    case (Inr r)
    then have "(case drain chips cb r s of None \<Rightarrow> None
                | Some s2 \<Rightarrow> Some (cpuCycles s2, Some r, None, s2)) = Some (n, res, err, s')"
      using st ai by (simp add: Step_def)
    then have d: "drain chips cb r s = Some s'" and eq: "n = cpuCycles s'"
      by (cases "drain chips cb r s"; simp; fail)+
    from drain_Some [OF d] obtain k where k: "s' = (cycleVCS chips cb r ^^ k) s" by blast
    show ?thesis
      using inv eq unfolding k
      by (simp add: cycles_tally [OF assms(1)] cycles_cpuCycles algebra_simps)
  qed
qed

lemma Step_None:
  "Step chips cb instr v = None \<longleftrightarrow>
     (\<exists>r s. afterInstruction chips cb instr v = (Inr r, s)
            \<and> (\<forall>k. unready ((cycleVCS chips cb r ^^ k) s)))"
proof (cases "afterInstruction chips cb instr v")
  case (Pair x s)
  show ?thesis
  proof (cases x)
    case (Inl e)
    then show ?thesis using Pair by (simp add: Step_def)
  next
    case (Inr r)
    then have "Step chips cb instr v = None \<longleftrightarrow> drain chips cb r s = None"
      using Pair by (simp add: Step_def split: option.splits)
    then show ?thesis using Pair Inr by (simp add: drain_None)
  qed
qed

subsection \<open>The example machine\<close>

lemmas cycle_eval = cycleVCS_def Let_def callChip_def stepVideoCycle_def callback_def
  benchHardware_def benchCallback_def resetCPU_def

lemma ex_keepsRegisters: "keepsRegisters benchCallback"
  by (simp add: keepsRegisters_def benchCallback_def)

lemma ex_tallies:
  "tallies benchHardware (benchCallback :: (bench, unit) videoCycleCallback) riotReads 1 0 0 0 0"
  "tallies benchHardware (benchCallback :: (bench, unit) videoCycleCallback) riotSteps 0 1 0 0 0"
  "tallies benchHardware (benchCallback :: (bench, unit) videoCycleCallback) colorClocks 0 0 1 0 0"
  "tallies benchHardware (benchCallback :: (bench, unit) videoCycleCallback) tiaReads 0 0 0 1 0"
  "tallies benchHardware (benchCallback :: (bench, unit) videoCycleCallback) callbacks 0 0 0 0 1"
  by (simp_all add: tallies_def benchHardware_def benchCallback_def)

lemma ex_writesKeep:
  "writesKeep benchHardware colorClocks" "writesKeep benchHardware callbacks"
  by (simp_all add: writesKeep_def benchHardware_def)

lemma ex_quiet: "quiet colorClocks staWSYNC" "quiet callbacks staWSYNC"
  by (simp_all add: staWSYNC_def)

lemma ex_afterInstruction:
  "afterInstruction benchHardware benchCallback staWSYNC wsyncMachine = (Inr (), stalled)"
  by (simp add: afterInstruction_def staWSYNC_def wsyncMachine_def stalled_def cycle_eval)

lemma ex_cycle: "cycleVCS benchHardware benchCallback () stalled = released"
  by (simp add: stalled_def released_def cycle_eval)

lemma ex_firstReady: "firstReady benchHardware benchCallback () stalled 1"
  by (simp add: firstReady_def unready_def ex_cycle) (simp add: stalled_def released_def resetCPU_def)

lemma ex_Step:
  "Step benchHardware benchCallback staWSYNC wsyncMachine = Some (4, Some (), None, released)"
proof -
  have "drain benchHardware benchCallback () stalled
          = Some ((cycleVCS benchHardware benchCallback () ^^ 1) stalled)"
    by (rule drain_returns) (use ex_firstReady in \<open>simp_all add: firstReady_def\<close>)
  then show ?thesis by (simp add: Step_def ex_afterInstruction ex_cycle) (simp add: released_def)
qed

lemma ex_counts:
  "riotReads (hw (vcs stalled)) = 3" "riotSteps (hw (vcs stalled)) = 3"
  "colorClocks (hw (vcs stalled)) = 9" "tiaReads (hw (vcs stalled)) = 3"
  "callbacks (hw (vcs stalled)) = 9"
  "colorClocks (hw wsyncMachine) = 0" "callbacks (hw wsyncMachine) = 0"
  "cpuCycles stalled = 3"
  by (simp_all add: stalled_def wsyncMachine_def)

lemma quiet_nothing: "quiet (\<lambda>h. 0) instr"
  by (induction instr) simp_all

subsection \<open>The claims\<close>




text \<open>
  C2. Let the callback leave the CPU's registers alone, and let RDY be low after each of
  the first \<open>n - 1\<close> cycles that follow the state \<open>s\<close> and high after the \<open>n\<close>-th (low in
  \<open>s\<close> itself when \<open>n > 0\<close>). Then the loop returns, after exactly \<open>n\<close> cycles; the
  registers are the same after every one of them; every tally in the hardware has risen
  by \<open>n\<close> times what one cycle adds to it, a step of the RIOT and three steps of the TIA
  in each cycle; and when \<open>s\<close> is the state in which the instruction returned, \<^verbatim>\<open>Step\<close>
  returns with the instruction's result and the cycles of the instruction and of the
  loop together.
\<close>

theorem drain_until_ready:
  assumes "keepsRegisters cb" and "firstReady chips cb r s n"
  shows "drain chips cb r s = Some ((cycleVCS chips cb r ^^ n) s)
         \<and> (\<forall>m\<le>n. registers (MC (vcs ((cycleVCS chips cb r ^^ m) s))) = registers (MC (vcs s)))
         \<and> cpuCycles ((cycleVCS chips cb r ^^ n) s) = cpuCycles s + int n
         \<and> (tallies chips cb obs a b c d e \<longrightarrow>
              obs (hw (vcs ((cycleVCS chips cb r ^^ n) s))) =
                obs (hw (vcs s)) + n * (a + b + 3 * c + d + 3 * e))
         \<and> (afterInstruction chips cb instr v = (Inr r, s) \<longrightarrow>
              Step chips cb instr v = Some (cpuCycles s + int n, Some r, None, (cycleVCS chips cb r ^^ n) s))"
proof -
  have lo: "\<And>m. m < n \<Longrightarrow> unready ((cycleVCS chips cb r ^^ m) s)"
    and hi: "\<not> unready ((cycleVCS chips cb r ^^ n) s)"
    using assms(2) by (simp_all add: firstReady_def)
  have d: "drain chips cb r s = Some ((cycleVCS chips cb r ^^ n) s)"
    by (rule drain_returns [OF lo hi])
  have t: "tallies chips cb obs a b c d e \<longrightarrow>
              obs (hw (vcs ((cycleVCS chips cb r ^^ n) s))) =
                obs (hw (vcs s)) + n * (a + b + 3 * c + d + 3 * e)"
    by (simp add: cycles_tally)
  show ?thesis
    using d t by (simp add: cycles_registers [OF assms(1)] cycles_cpuCycles Step_def)
qed

theorem drain_until_ready_witness:
  "keepsRegisters (benchCallback :: (bench, unit) videoCycleCallback)
   \<and> firstReady benchHardware benchCallback () stalled 1
   \<and> afterInstruction benchHardware benchCallback staWSYNC wsyncMachine = (Inr (), stalled)
   \<and> Step benchHardware benchCallback staWSYNC wsyncMachine = Some (4, Some (), None, released)
   \<and> registers (MC (vcs released)) = registers (MC (vcs stalled))
   \<and> riotSteps (hw (vcs released)) = 4
   \<and> colorClocks (hw (vcs released)) = 12
   \<and> \<not> unready released"
proof -
  note th = drain_until_ready [OF ex_keepsRegisters ex_firstReady, of _ _ _ _ _ _ staWSYNC wsyncMachine]
  have "Step benchHardware benchCallback staWSYNC wsyncMachine = Some (4, Some (), None, released)"
    using th [of riotSteps 0 1 0 0 0] ex_afterInstruction by (simp add: ex_cycle ex_counts)
  moreover have "registers (MC (vcs ((cycleVCS benchHardware benchCallback () ^^ 1) stalled)))
                   = registers (MC (vcs stalled))"
    using th [of riotSteps 0 1 0 0 0] by blast
  then have "registers (MC (vcs released)) = registers (MC (vcs stalled))"
    by (simp add: ex_cycle)
  moreover have "riotSteps (hw (vcs released)) = 4"
    using ex_tallies(2) th [of riotSteps 0 1 0 0 0] by (simp add: ex_cycle ex_counts)
  moreover have "colorClocks (hw (vcs released)) = 12"
    using ex_tallies(3) th [of colorClocks 0 0 1 0 0] by (simp add: ex_cycle ex_counts)
  moreover have "\<not> unready released"
    using ex_firstReady by (simp add: firstReady_def ex_cycle)
  ultimately show ?thesis
    using ex_keepsRegisters ex_firstReady ex_afterInstruction by simp
qed

text \<open>
  C3. Whenever \<^verbatim>\<open>Step\<close> returns, with or without an error, the cycle count it returns
  is that of its counter, cycles of the loop included, and since the call a tally of
  the colour clocks has risen by three times that count, and so has a tally of the
  invocations of the callback; a tally is one that the writes of the input registers and
  the CPU's own work leave alone. \<^verbatim>\<open>Step\<close> fails to return only if the instruction
  returns without error and RDY stays low for ever.
\<close>

theorem Step_color_clocks:
  "(Step chips cb instr v = Some (n, res, err, s') \<longrightarrow>
      n = cpuCycles s' \<and> 0 \<le> n
      \<and> (tallies chips cb clock 0 0 1 0 0 \<and> writesKeep chips clock \<and> quiet clock instr \<longrightarrow>
           int (clock (hw (vcs s'))) = int (clock (hw v)) + 3 * n)
      \<and> (tallies chips cb seen 0 0 0 0 1 \<and> writesKeep chips seen \<and> quiet seen instr \<longrightarrow>
           int (seen (hw (vcs s'))) = int (seen (hw v)) + 3 * n))
   \<and> (Step chips cb instr v = None \<longleftrightarrow>
        (\<exists>r s. afterInstruction chips cb instr v = (Inr r, s)
               \<and> (\<forall>k. unready ((cycleVCS chips cb r ^^ k) s))))"
proof (intro conjI impI)
  assume st: "Step chips cb instr v = Some (n, res, err, s')"
  have "tallies chips cb (\<lambda>h. 0) 0 0 0 0 0" "writesKeep chips (\<lambda>h. 0)"
    by (simp_all add: tallies_def writesKeep_def)
  from Step_tally [OF this quiet_nothing st]
  show "n = cpuCycles s'" and "0 \<le> n" by simp_all
next
  assume st: "Step chips cb instr v = Some (n, res, err, s')"
    and t: "tallies chips cb clock 0 0 1 0 0 \<and> writesKeep chips clock \<and> quiet clock instr"
  from t have "tallies chips cb clock 0 0 1 0 0" "writesKeep chips clock" "quiet clock instr"
    by simp_all
  from Step_tally [OF this st]
  show "int (clock (hw (vcs s'))) = int (clock (hw v)) + 3 * n" by simp
next
  assume st: "Step chips cb instr v = Some (n, res, err, s')"
    and t: "tallies chips cb seen 0 0 0 0 1 \<and> writesKeep chips seen \<and> quiet seen instr"
  from t have "tallies chips cb seen 0 0 0 0 1" "writesKeep chips seen" "quiet seen instr"
    by simp_all
  from Step_tally [OF this st]
  show "int (seen (hw (vcs s'))) = int (seen (hw v)) + 3 * n" by simp
next
  show "Step chips cb instr v = None \<longleftrightarrow>
        (\<exists>r s. afterInstruction chips cb instr v = (Inr r, s)
               \<and> (\<forall>k. unready ((cycleVCS chips cb r ^^ k) s)))"
    by (rule Step_None)
qed

theorem Step_color_clocks_witness:
  "\<exists>s'. Step benchHardware benchCallback staWSYNC wsyncMachine = Some (4, Some (), None, s')
        \<and> cpuCycles s' = 4
        \<and> colorClocks (hw (vcs s')) = 12
        \<and> callbacks (hw (vcs s')) = 12"
proof -
  obtain s' where st: "Step benchHardware benchCallback staWSYNC wsyncMachine = Some (4, Some (), None, s')"
    using ex_Step by blast
  note th = Step_color_clocks [of benchHardware benchCallback staWSYNC wsyncMachine 4 "Some ()" None s'
              colorClocks callbacks]
  have "cpuCycles s' = 4" using st th by simp
  moreover have "int (colorClocks (hw (vcs s'))) = int (colorClocks (hw wsyncMachine)) + 3 * 4"
    using ex_tallies(3) ex_writesKeep(1) ex_quiet(1) st th by simp
  moreover have "int (callbacks (hw (vcs s'))) = int (callbacks (hw wsyncMachine)) + 3 * 4"
    using ex_tallies(5) ex_writesKeep(2) ex_quiet(2) st th by simp
  ultimately show ?thesis using st by (simp add: ex_counts)
qed

section \<open>The TIA step\<close>

subsection \<open>What each sub-step leaves alone\<close>

lemma latches_inVideo: "latches (snd (whenService b (inVideo f) t)) = latches t"
  by (simp add: whenService_def inVideo_def latches_def split: prod.splits)

lemma latches_inVideoDelay: "latches (snd (whenService b (inVideoDelay f) t)) = latches t"
  by (simp add: whenService_def inVideoDelay_def latches_def split: prod.splits)

lemma latches_inAudio: "latches (snd (whenService b (inAudio f) t)) = latches t"
  by (simp add: whenService_def inAudio_def latches_def split: prod.splits)

lemma serviceVideo_latches:
  "latches (snd (serviceVideo ps sm data t)) =
     (pclk t, hsync t, tv t, sig t, hblank t, wsync t, hmoveLatch t,
      (if Phi2 ps (pclk t) \<and> hmoveCt t \<noteq> 0xff then hmoveCt t - 1 else hmoveCt t), rsyncEvent t)"
proof -
  obtain sm1 t1 where a: "whenService sm (inVideo (\<lambda>t. UpdateSpritePositioning ps t data)) t = (sm1, t1)"
    by (cases "whenService sm (inVideo (\<lambda>t. UpdateSpritePositioning ps t data)) t")
  obtain sm2 t2 where b: "whenService sm1 (inVideo (\<lambda>t. UpdateColor ps t data)) t1 = (sm2, t2)"
    by (cases "whenService sm1 (inVideo (\<lambda>t. UpdateColor ps t data)) t1")
  have "latches t1 = latches t" using latches_inVideo [of sm "\<lambda>t. UpdateSpritePositioning ps t data" t] a by simp
  moreover have "latches t2 = latches t1" using latches_inVideo [of sm1 "\<lambda>t. UpdateColor ps t data" t1] b by simp
  ultimately have "latches t2 = latches t" by simp
  then show ?thesis
    by (simp add: serviceVideo_def a b Let_def latches_def)
qed

lemma resolvePixel_latches:
  "latches (resolvePixel ps t) =
     (pclk t, hsync t, tv t,
      (sig t)\<lparr>AltPixel := snd (fst (VideoPixel ps t)),
              Pixel := (if hblank t then VideoBlack else ColorSignal (fst (fst (VideoPixel ps t))))\<rparr>,
      hblank t, wsync t, hmoveLatch t, hmoveCt t, rsyncEvent t)"
  by (simp add: resolvePixel_def latches_def Let_def split: prod.splits)

lemma serviceAudio_latches:
  "\<exists>u d. latches (serviceAudio ps sm data t) =
     (pclk t, hsync t, tv t, (sig t)\<lparr>AudioUpdate := u, AudioData := d\<rparr>,
      hblank t, wsync t, hmoveLatch t, hmoveCt t, rsyncEvent t)"
proof -
  obtain sm1 t1 where a: "whenService sm (inVideoDelay (\<lambda>t. UpdateSpriteHMOVE ps t data)) t = (sm1, t1)"
    by (cases "whenService sm (inVideoDelay (\<lambda>t. UpdateSpriteHMOVE ps t data)) t")
  obtain sm2 t2 where b: "whenService sm1 (inVideo (\<lambda>t. UpdateSpriteVariations ps t data)) t1 = (sm2, t2)"
    by (cases "whenService sm1 (inVideo (\<lambda>t. UpdateSpriteVariations ps t data)) t1")
  obtain sm3 t3 where c: "whenService sm2 (inVideo (\<lambda>t. UpdateSpritePixels ps t data)) t2 = (sm3, t3)"
    by (cases "whenService sm2 (inVideo (\<lambda>t. UpdateSpritePixels ps t data)) t2")
  obtain sm4 t4 where d: "whenService sm3 (inAudio (\<lambda>t. AudioUpdateRegisters ps t data)) t3 = (sm4, t4)"
    by (cases "whenService sm3 (inAudio (\<lambda>t. AudioUpdateRegisters ps t data)) t3")
  have "latches t1 = latches t" using latches_inVideoDelay [of sm "\<lambda>t. UpdateSpriteHMOVE ps t data" t] a by simp
  moreover have "latches t2 = latches t1" using latches_inVideo [of sm1 "\<lambda>t. UpdateSpriteVariations ps t data" t1] b by simp
  moreover have "latches t3 = latches t2" using latches_inVideo [of sm2 "\<lambda>t. UpdateSpritePixels ps t data" t2] c by simp
  moreover have "latches t4 = latches t3" using latches_inAudio [of sm3 "\<lambda>t. AudioUpdateRegisters ps t data" t3] d by simp
  ultimately have "latches t4 = latches t" by simp
  then show ?thesis
    by (auto simp: serviceAudio_def a b c d Let_def latches_def split: prod.splits)
qed


lemma sendSignal_latches:
  "hsync (snd (sendSignal ps t)) = hsync t"
  "hmoveLatch (snd (sendSignal ps t)) = hmoveLatch t"
  "hmoveCt (snd (sendSignal ps t)) = hmoveCt t"
  "hblank (snd (sendSignal ps t)) = hblank t"
  "wsync (snd (sendSignal ps t)) = wsync t"
  "pclk (snd (sendSignal ps t)) = pclk t"
  "tv (snd (sendSignal ps t)) = snd (tvSignal ps (sig t) (tv t))"
  by (simp_all add: sendSignal_def Let_def split: prod.splits option.splits)

lemma tickHsync_latches:
  "pclk (tickHsync ps t) = pclk t"
  "hmoveCt (tickHsync ps t) = hmoveCt t"
  "hblank (tickHsync ps t) = hblank t"
  "wsync (tickHsync ps t) = wsync t"
  "tv (tickHsync ps t) = tv t"
  by (simp_all add: tickHsync_def schedule_def Let_def)

text \<open>What the whole step leaves in the fields that only the TIA itself writes.\<close>

lemma beforePixel_latches:
  assumes "serviceTIA ps sm t = (sm1, data, t1)"
  shows "latches (snd (snd (beforePixel ps sm t))) =
     (pclk t1, hsync (tickHsync ps t1), tv t1, sig (tickHsync ps t1), hblank t1, wsync t1,
      hmoveLatch (tickHsync ps t1),
      (if Phi2 ps (pclk t1) \<and> hmoveCt t1 \<noteq> 0xff then hmoveCt t1 - 1 else hmoveCt t1),
      rsyncEvent (tickHsync ps t1))"
proof -
  obtain sm2 t2 where sv: "serviceVideo ps sm1 data (tickHsync ps t1) = (sm2, t2)"
    by (cases "serviceVideo ps sm1 data (tickHsync ps t1)")
  have "latches t2 =
     (pclk t1, hsync (tickHsync ps t1), tv t1, sig (tickHsync ps t1), hblank t1, wsync t1,
      hmoveLatch (tickHsync ps t1),
      (if Phi2 ps (pclk t1) \<and> hmoveCt t1 \<noteq> 0xff then hmoveCt t1 - 1 else hmoveCt t1),
      rsyncEvent (tickHsync ps t1))"
    using serviceVideo_latches [of ps sm1 data "tickHsync ps t1"] sv
    by (simp add: tickHsync_latches)
  then show ?thesis
    by (simp add: beforePixel_def assms sv)
qed

lemma beforeSignal_latches:
  assumes "serviceTIA ps sm t = (sm1, data, t1)"
  shows "hsync (beforeSignal ps sm t) = hsync (tickHsync ps t1)"
    and "hmoveLatch (beforeSignal ps sm t) = hmoveLatch (tickHsync ps t1)"
    and "hmoveCt (beforeSignal ps sm t) =
           (if Phi2 ps (pclk t1) \<and> hmoveCt t1 \<noteq> 0xff then hmoveCt t1 - 1 else hmoveCt t1)"
    and "hblank (beforeSignal ps sm t) = hblank t1"
    and "wsync (beforeSignal ps sm t) = wsync t1"
proof -
  obtain sm2 d2 t2 where bp: "beforePixel ps sm t = (sm2, d2, t2)"
    by (cases "beforePixel ps sm t")
  have l2: "latches t2 =
     (pclk t1, hsync (tickHsync ps t1), tv t1, sig (tickHsync ps t1), hblank t1, wsync t1,
      hmoveLatch (tickHsync ps t1),
      (if Phi2 ps (pclk t1) \<and> hmoveCt t1 \<noteq> 0xff then hmoveCt t1 - 1 else hmoveCt t1),
      rsyncEvent (tickHsync ps t1))"
    using beforePixel_latches [OF assms] bp by simp
  obtain u d where l3: "latches (serviceAudio ps sm2 d2 (resolvePixel ps t2)) =
     (pclk (resolvePixel ps t2), hsync (resolvePixel ps t2), tv (resolvePixel ps t2),
      (sig (resolvePixel ps t2))\<lparr>AudioUpdate := u, AudioData := d\<rparr>,
      hblank (resolvePixel ps t2), wsync (resolvePixel ps t2), hmoveLatch (resolvePixel ps t2),
      hmoveCt (resolvePixel ps t2), rsyncEvent (resolvePixel ps t2))"
    using serviceAudio_latches [of ps sm2 d2 "resolvePixel ps t2"] by blast
  have l4: "latches (resolvePixel ps t2) =
     (pclk t2, hsync t2, tv t2,
      (sig t2)\<lparr>AltPixel := snd (fst (VideoPixel ps t2)),
              Pixel := (if hblank t2 then VideoBlack else ColorSignal (fst (fst (VideoPixel ps t2))))\<rparr>,
      hblank t2, wsync t2, hmoveLatch t2, hmoveCt t2, rsyncEvent t2)"
    by (rule resolvePixel_latches)
  show "hsync (beforeSignal ps sm t) = hsync (tickHsync ps t1)"
    and "hmoveLatch (beforeSignal ps sm t) = hmoveLatch (tickHsync ps t1)"
    and "hmoveCt (beforeSignal ps sm t) =
           (if Phi2 ps (pclk t1) \<and> hmoveCt t1 \<noteq> 0xff then hmoveCt t1 - 1 else hmoveCt t1)"
    and "hblank (beforeSignal ps sm t) = hblank t1"
    and "wsync (beforeSignal ps sm t) = wsync t1"
    using l2 l3 l4 by (simp_all add: beforeSignal_def bp latches_def)
qed


lemma TIAStep_latches:
  assumes "serviceTIA ps sm t = (sm1, data, t1)"
  shows "hsync (snd (TIAStep ps sm t)) = hsync (tickHsync ps t1)"
    and "hmoveLatch (snd (TIAStep ps sm t)) = hmoveLatch (tickHsync ps t1)"
    and "hmoveCt (snd (TIAStep ps sm t)) =
           (if Phi2 ps (pclk t1) \<and> hmoveCt t1 \<noteq> 0xff then hmoveCt t1 - 1 else hmoveCt t1)"
  by (simp_all add: TIAStep_def sendSignal_latches beforeSignal_latches [OF assms])

lemma beforeSignal_pixel:
  assumes "beforePixel ps sm t = (sm2, data, t2)"
  shows "AltPixel (sig (beforeSignal ps sm t)) = snd (fst (VideoPixel ps t2))"
    and "Pixel (sig (beforeSignal ps sm t)) =
           (if hblank t2 then VideoBlack else ColorSignal (fst (fst (VideoPixel ps t2))))"
    and "hblank (beforeSignal ps sm t) = hblank t2"
proof -
  obtain u d where l3: "latches (serviceAudio ps sm2 data (resolvePixel ps t2)) =
     (pclk (resolvePixel ps t2), hsync (resolvePixel ps t2), tv (resolvePixel ps t2),
      (sig (resolvePixel ps t2))\<lparr>AudioUpdate := u, AudioData := d\<rparr>,
      hblank (resolvePixel ps t2), wsync (resolvePixel ps t2), hmoveLatch (resolvePixel ps t2),
      hmoveCt (resolvePixel ps t2), rsyncEvent (resolvePixel ps t2))"
    using serviceAudio_latches [of ps sm2 data "resolvePixel ps t2"] by blast
  have l4: "latches (resolvePixel ps t2) =
     (pclk t2, hsync t2, tv t2,
      (sig t2)\<lparr>AltPixel := snd (fst (VideoPixel ps t2)),
              Pixel := (if hblank t2 then VideoBlack else ColorSignal (fst (fst (VideoPixel ps t2))))\<rparr>,
      hblank t2, wsync t2, hmoveLatch t2, hmoveCt t2, rsyncEvent t2)"
    by (rule resolvePixel_latches)
  show "AltPixel (sig (beforeSignal ps sm t)) = snd (fst (VideoPixel ps t2))"
    and "Pixel (sig (beforeSignal ps sm t)) =
           (if hblank t2 then VideoBlack else ColorSignal (fst (fst (VideoPixel ps t2))))"
    and "hblank (beforeSignal ps sm t) = hblank t2"
    using l3 l4 by (simp_all add: beforeSignal_def assms latches_def)
qed

lemma ColorSignal_not_black: "ColorSignal c \<noteq> VideoBlack"
proof -
  have "0 \<le> uint c" by simp
  then show ?thesis unfolding ColorSignal_def VideoBlack_def by linarith
qed

lemma hmoveCt_next: "(c :: 8 word) \<noteq> 0xff \<Longrightarrow> unat (c - 1 + 1) + 1 = unat (c + 1)"
proof -
  assume a: "c \<noteq> 0xff"
  have "1 + c \<noteq> 0"
  proof
    assume "1 + c = 0"
    then have "c = - 1" by (simp add: eq_neg_iff_add_eq_0 add.commute)
    then show False using a by simp
  qed
  then show ?thesis using unatSuc [of c] by (simp add: add.commute)
qed

lemma serviceTIA_hmoveCt:
  assumes "noHMOVE ps"
  shows "hmoveCt (snd (snd (serviceTIA ps sm t))) = hmoveCt t"
proof -
  let ?t0 = "t\<lparr>videoCycles := videoCycles t + 1\<rparr>"
  obtain sm1 data t1 where a: "(if sm then ChipRead ?t0 else (sm, \<lparr>Name = [], Value = 0\<rparr>, ?t0)) = (sm1, data, t1)"
    by (cases "(if sm then ChipRead ?t0 else (sm, \<lparr>Name = [], Value = 0\<rparr>, ?t0))")
  obtain sm2 t2 where b: "whenService sm1 (UpdateTIA ps data) t1 = (sm2, t2)"
    by (cases "whenService sm1 (UpdateTIA ps data) t1")
  obtain sm3 t3 where c: "whenService sm2 (inVideoDelay (\<lambda>t. UpdatePlayfield ps t data)) t2 = (sm3, t3)"
    by (cases "whenService sm2 (inVideoDelay (\<lambda>t. UpdatePlayfield ps t data)) t2")
  have h1: "hmoveCt t1 = hmoveCt t"
    using a by (auto simp: ChipRead_def split: if_splits option.splits)
  have "hmoveCt (snd (whenService sm1 (UpdateTIA ps data) t1)) = hmoveCt t1"
    using assms by (simp add: whenService_def noHMOVE_def)
  then have h2: "hmoveCt t2 = hmoveCt t1" using b by simp
  have "latches t3 = latches t2"
    using latches_inVideoDelay [of sm2 "\<lambda>t. UpdatePlayfield ps t data" t2] c by simp
  then have h3: "hmoveCt t3 = hmoveCt t2" by (simp add: latches_def)
  have "hmoveCt (DelayTick ps (t3\<lparr>pclk := pclkTick ps (pclk t3)\<rparr>)) = hmoveCt t3"
    using assms by (simp add: noHMOVE_def)
  then show ?thesis
    using h1 h2 h3 by (simp add: serviceTIA_def Let_def a b c)
qed

lemma TIAStep_hmoveCt_absorbed:
  assumes "noHMOVE ps" and "hmoveCt t = 0xff"
  shows "hmoveCt (snd (TIAStep ps sm t)) = 0xff"
proof -
  obtain sm1 data t1 where s: "serviceTIA ps sm t = (sm1, data, t1)"
    by (cases "serviceTIA ps sm t")
  have "hmoveCt t1 = 0xff" using serviceTIA_hmoveCt [OF assms(1), of sm t] s assms(2) by simp
  then show ?thesis using TIAStep_latches(3) [OF s] by simp
qed

lemma TIASteps_hmoveCt_absorbed:
  "noHMOVE ps \<Longrightarrow> hmoveCt t = 0xff \<Longrightarrow> hmoveCt (TIASteps ps sms t) = 0xff"
  by (induction sms arbitrary: t) (simp_all add: TIAStep_hmoveCt_absorbed)

subsection \<open>The example TIA\<close>

lemmas tia_eval = serviceTIA_def tickHsync_def serviceVideo_def resolvePixel_def serviceAudio_def
  sendSignal_def beforePixel_def beforeSignal_def TIAStep_def ChipRead_def whenService_def
  inVideo_def inVideoDelay_def inAudio_def schedule_def hsyncDelay_def Let_def
  plainParts_def powerOn_def tiaAt_def

lemma ex_serviceTIA:
  "serviceTIA plainParts False (tiaAt 2 h latch) = (False, \<lparr>Name = [], Value = 0\<rparr>, (tiaAt 3 h latch)\<lparr>videoCycles := 1\<rparr>)"
  by (simp add: tia_eval)

lemma ex_Phi2:
  "Phi2 plainParts (pclk (tiaAt 3 h latch))"
  "\<not> Phi2 plainParts (pclk (tiaAt 2 h latch))"
  "Phi2 plainParts (pclk ((tiaAt 3 h latch)\<lparr>videoCycles := 1\<rparr>))"
  by (simp_all add: plainParts_def tiaAt_def)

lemma ex_fields:
  "hsync (tiaAt p h latch) = h"
  "hmoveLatch (tiaAt p h latch) = latch"
  "rsyncEvent (tiaAt p h latch) = None"
  "Delay (tiaAt p h latch) = []"
  "hsync ((tiaAt p h latch)\<lparr>videoCycles := 1\<rparr>) = h"
  by (simp_all add: tiaAt_def powerOn_def)

lemma ex_Schedule: "Schedule plainParts n f l d = d @ [(n, f, l)]"
  by (simp add: plainParts_def)

lemma ex_beforePixel:
  "beforePixel plainParts False (powerOn\<lparr>hblank := b, hmoveCt := c\<rparr>) =
     (False, \<lparr>Name = [], Value = 0\<rparr>,
      powerOn\<lparr>videoCycles := 1, pclk := 3, hsync := 1, hblank := b,
              hmoveCt := (if c \<noteq> 0xff then c - 1 else c)\<rparr>)"
  by (simp add: tia_eval)

lemma ex_VideoPixel: "VideoPixel plainParts t = ((0x1e, 7), Video t)"
  by (simp add: plainParts_def)

lemma ex_hblank:
  "hblank (powerOn\<lparr>videoCycles := 1, pclk := 3, hsync := 1, hblank := b, hmoveCt := c\<rparr>) = b"
  by (simp add: powerOn_def)

lemma ex_tvSignal: "tvSignal plainParts s answer = (answer, answer)"
  by (simp add: plainParts_def)

lemma ex_beforeSignal_tv:
  "tv (beforeSignal plainParts False (powerOn\<lparr>tv := answer\<rparr>)) = answer"
  "wsync (beforeSignal plainParts False (powerOn\<lparr>tv := answer\<rparr>)) = False"
  by (simp_all add: tia_eval)

lemma ex_noHMOVE: "noHMOVE plainParts"
  by (simp add: noHMOVE_def plainParts_def)

lemma ex_serviceTIA_ct:
  "serviceTIA plainParts False (powerOn\<lparr>hmoveCt := c\<rparr>) =
     (False, \<lparr>Name = [], Value = 0\<rparr>, powerOn\<lparr>videoCycles := 1, pclk := 3, hmoveCt := c\<rparr>)"
  by (simp add: tia_eval)

lemma ex_ct:
  "hmoveCt (powerOn\<lparr>videoCycles := 1, pclk := 3, hmoveCt := c\<rparr>) = c"
  "Phi2 plainParts (pclk (powerOn\<lparr>videoCycles := 1, pclk := 3, hmoveCt := c\<rparr>))"
  "hmoveCt powerOn = 0xff"
  "Phi2 plainParts 3"
  by (simp_all add: powerOn_def plainParts_def)

subsection \<open>The claims\<close>

text \<open>
  C4. Sub-step 3 ticks the HSYNC counter only on the rising edge of Phi2. From a count of
  at most 56 the new count is the successor modulo 57, so the counter runs through
  0, 1, ..., 56, 0, ...; at the wrap from 56 to 0, and only there, \<open>hmoveLatch\<close> is cleared;
  when the count becomes 56 the new-scanline event is scheduled with the delay of the
  latches if no RSYNC event is pending, and nothing is scheduled otherwise. The rest of
  the step leaves the counter and the latch as sub-step 3 leaves them.
\<close>

theorem hsync_counter:
  "(\<not> Phi2 ps (pclk t) \<longrightarrow> tickHsync ps t = t)
   \<and> (Phi2 ps (pclk t) \<and> hsync t \<le> 56 \<longrightarrow>
        hsync (tickHsync ps t) = (hsync t + 1) mod 57
        \<and> hsync (tickHsync ps t) \<le> 56
        \<and> (hsync t = 56 \<longrightarrow> \<not> hmoveLatch (tickHsync ps t))
        \<and> (hsync t \<noteq> 56 \<longrightarrow> hmoveLatch (tickHsync ps t) = hmoveLatch t)
        \<and> (hsync t = 55 \<longrightarrow>
             Delay (tickHsync ps t) =
               (if rsyncEvent t = None then Schedule ps hsyncDelay newScanline ''RESET'' (Delay t)
                else Delay t)))
   \<and> (serviceTIA ps sm t0 = (sm1, data, t) \<longrightarrow>
        hsync (snd (TIAStep ps sm t0)) = hsync (tickHsync ps t)
        \<and> hmoveLatch (snd (TIAStep ps sm t0)) = hmoveLatch (tickHsync ps t))"
proof (intro conjI impI)
  assume "\<not> Phi2 ps (pclk t)"
  then show "tickHsync ps t = t" by (simp add: tickHsync_def)
next
  assume a: "Phi2 ps (pclk t) \<and> hsync t \<le> 56"
  show "hsync (tickHsync ps t) = (hsync t + 1) mod 57"
    using a by (cases "hsync t = 56") (simp_all add: tickHsync_def schedule_def Let_def)
  show "hsync (tickHsync ps t) \<le> 56"
    using a by (simp add: tickHsync_def schedule_def Let_def)
  show "\<not> hmoveLatch (tickHsync ps t)" if "hsync t = 56"
    using a that by (simp add: tickHsync_def)
  show "hmoveLatch (tickHsync ps t) = hmoveLatch t" if "hsync t \<noteq> 56"
    using a that by (simp add: tickHsync_def schedule_def Let_def)
  show "Delay (tickHsync ps t) =
          (if rsyncEvent t = None then Schedule ps hsyncDelay newScanline ''RESET'' (Delay t) else Delay t)"
    if "hsync t = 55"
    using a that by (auto simp: tickHsync_def schedule_def Let_def)
next
  assume s: "serviceTIA ps sm t0 = (sm1, data, t)"
  show "hsync (snd (TIAStep ps sm t0)) = hsync (tickHsync ps t)"
    by (rule TIAStep_latches [OF s])
  show "hmoveLatch (snd (TIAStep ps sm t0)) = hmoveLatch (tickHsync ps t)"
    by (rule TIAStep_latches [OF s])
qed

theorem hsync_counter_witness:
  "\<not> Phi2 plainParts (pclk (tiaAt 2 56 True)) \<and> tickHsync plainParts (tiaAt 2 56 True) = tiaAt 2 56 True
   \<and> Phi2 plainParts (pclk (tiaAt 3 56 True)) \<and> hsync (tiaAt 3 56 True) \<le> 56
   \<and> hsync (tickHsync plainParts (tiaAt 3 56 True)) = 0
   \<and> \<not> hmoveLatch (tickHsync plainParts (tiaAt 3 56 True))
   \<and> hsync (tickHsync plainParts (tiaAt 3 55 True)) = 56
   \<and> hmoveLatch (tickHsync plainParts (tiaAt 3 55 True))
   \<and> Delay (tickHsync plainParts (tiaAt 3 55 True)) = [(3, newScanline, ''RESET'')]
   \<and> hsync (snd (TIAStep plainParts False (tiaAt 2 56 True))) = 0
   \<and> \<not> hmoveLatch (snd (TIAStep plainParts False (tiaAt 2 56 True)))"
proof -
  have a: "tickHsync plainParts (tiaAt 2 56 True) = tiaAt 2 56 True"
    using hsync_counter [of plainParts "tiaAt 2 56 True" False "tiaAt 2 56 True" False "\<lparr>Name = [], Value = 0\<rparr>"]
    by (simp add: ex_Phi2)
  have b: "hsync (tickHsync plainParts (tiaAt 3 56 True)) = 0 \<and> \<not> hmoveLatch (tickHsync plainParts (tiaAt 3 56 True))"
    using hsync_counter [of plainParts "tiaAt 3 56 True" False "tiaAt 2 56 True" False "\<lparr>Name = [], Value = 0\<rparr>"]
    by (simp add: ex_Phi2 ex_fields)
  have c: "hsync (tickHsync plainParts (tiaAt 3 55 True)) = 56 \<and> hmoveLatch (tickHsync plainParts (tiaAt 3 55 True))
           \<and> Delay (tickHsync plainParts (tiaAt 3 55 True)) = [(3, newScanline, ''RESET'')]"
    using hsync_counter [of plainParts "tiaAt 3 55 True" False "tiaAt 2 56 True" False "\<lparr>Name = [], Value = 0\<rparr>"]
    by (simp add: ex_Phi2 ex_fields ex_Schedule hsyncDelay_def)
  have d: "hsync (snd (TIAStep plainParts False (tiaAt 2 56 True))) = 0
           \<and> \<not> hmoveLatch (snd (TIAStep plainParts False (tiaAt 2 56 True)))"
    using hsync_counter [of plainParts "(tiaAt 3 56 True)\<lparr>videoCycles := 1\<rparr>" False "tiaAt 2 56 True"
             False "\<lparr>Name = [], Value = 0\<rparr>"]
    by (simp add: ex_Phi2 ex_fields ex_serviceTIA)
  show ?thesis
    using a b c d by (simp add: ex_Phi2 ex_fields)
qed

text \<open>
  C5. On the rising edge of Phi2 that takes the counter to 16, the reset of HBlank is
  scheduled, 3 clocks ahead, when \<open>hmoveLatch\<close> is clear, and nothing is scheduled when it
  is set; on the edge that takes the counter to 18 the late reset is scheduled when
  \<open>hmoveLatch\<close> is set, and nothing when it is clear.
\<close>

theorem hblank_reset_decode:
  "(Phi2 ps (pclk t) \<and> hsync t = 15 \<longrightarrow>
        tickHsync ps t =
          (if \<not> hmoveLatch t then schedule ps 3 futureResetHBlank ''HRB'' (t\<lparr>hsync := 16\<rparr>)
           else t\<lparr>hsync := 16\<rparr>))
   \<and> (Phi2 ps (pclk t) \<and> hsync t = 17 \<longrightarrow>
        tickHsync ps t =
          (if hmoveLatch t then schedule ps 3 futureResetHBlank ''LHRB'' (t\<lparr>hsync := 18\<rparr>)
           else t\<lparr>hsync := 18\<rparr>))"
  by (simp add: tickHsync_def schedule_def hsyncDelay_def Let_def)


theorem hblank_reset_decode_witness:
  "Phi2 plainParts (pclk (tiaAt 3 15 False))
   \<and> Delay (tickHsync plainParts (tiaAt 3 15 False)) = [(3, futureResetHBlank, ''HRB'')]
   \<and> Delay (tickHsync plainParts (tiaAt 3 15 True)) = []
   \<and> Delay (tickHsync plainParts (tiaAt 3 17 True)) = [(3, futureResetHBlank, ''LHRB'')]
   \<and> Delay (tickHsync plainParts (tiaAt 3 17 False)) = []"
proof -
  have a: "tickHsync plainParts (tiaAt 3 15 False) =
             schedule plainParts 3 futureResetHBlank ''HRB'' ((tiaAt 3 15 False)\<lparr>hsync := 16\<rparr>)"
    using hblank_reset_decode [of plainParts "tiaAt 3 15 False"] by (simp add: ex_Phi2 ex_fields)
  have b: "tickHsync plainParts (tiaAt 3 15 True) = (tiaAt 3 15 True)\<lparr>hsync := 16\<rparr>"
    using hblank_reset_decode [of plainParts "tiaAt 3 15 True"] by (simp add: ex_Phi2 ex_fields)
  have c: "tickHsync plainParts (tiaAt 3 17 True) =
             schedule plainParts 3 futureResetHBlank ''LHRB'' ((tiaAt 3 17 True)\<lparr>hsync := 18\<rparr>)"
    using hblank_reset_decode [of plainParts "tiaAt 3 17 True"] by (simp add: ex_Phi2 ex_fields)
  have d: "tickHsync plainParts (tiaAt 3 17 False) = (tiaAt 3 17 False)\<lparr>hsync := 18\<rparr>"
    using hblank_reset_decode [of plainParts "tiaAt 3 17 False"] by (simp add: ex_Phi2 ex_fields)
  show ?thesis
    unfolding a b c d by (simp add: ex_Phi2 ex_fields schedule_def ex_Schedule)
qed


text \<open>
  C6. Let \<open>t2\<close> be the TIA as the step reaches the resolution of the pixel, and let the
  video subsystem resolve the colours \<open>pixelColor\<close> and \<open>debugColor\<close> there. The signal
  that the step sends to the television carries \<open>debugColor\<close> as its alternative pixel in
  every case; its pixel is \<^verbatim>\<open>VideoBlack\<close> when \<open>hblank\<close> is set and the colour signal of
  \<open>pixelColor\<close>, which is never \<^verbatim>\<open>VideoBlack\<close>, when it is clear.
\<close>

theorem hblank_pixel:
  "beforePixel ps sm t = (sm2, data, t2) \<and> VideoPixel ps t2 = ((pixelColor, debugColor), v) \<longrightarrow>
     AltPixel (sig (beforeSignal ps sm t)) = debugColor
     \<and> (hblank t2 \<longrightarrow> Pixel (sig (beforeSignal ps sm t)) = VideoBlack)
     \<and> (\<not> hblank t2 \<longrightarrow> Pixel (sig (beforeSignal ps sm t)) = ColorSignal pixelColor)
     \<and> ColorSignal pixelColor \<noteq> VideoBlack
     \<and> hblank (beforeSignal ps sm t) = hblank t2
     \<and> tv (snd (TIAStep ps sm t)) =
         snd (tvSignal ps (sig (beforeSignal ps sm t)) (tv (beforeSignal ps sm t)))"
proof
  assume a: "beforePixel ps sm t = (sm2, data, t2) \<and> VideoPixel ps t2 = ((pixelColor, debugColor), v)"
  then have bp: "beforePixel ps sm t = (sm2, data, t2)" and vp: "VideoPixel ps t2 = ((pixelColor, debugColor), v)"
    by simp_all
  show "AltPixel (sig (beforeSignal ps sm t)) = debugColor
     \<and> (hblank t2 \<longrightarrow> Pixel (sig (beforeSignal ps sm t)) = VideoBlack)
     \<and> (\<not> hblank t2 \<longrightarrow> Pixel (sig (beforeSignal ps sm t)) = ColorSignal pixelColor)
     \<and> ColorSignal pixelColor \<noteq> VideoBlack
     \<and> hblank (beforeSignal ps sm t) = hblank t2
     \<and> tv (snd (TIAStep ps sm t)) =
         snd (tvSignal ps (sig (beforeSignal ps sm t)) (tv (beforeSignal ps sm t)))"
    by (simp add: beforeSignal_pixel [OF bp] vp ColorSignal_not_black TIAStep_def sendSignal_latches)
qed

theorem hblank_pixel_witness:
  "AltPixel (sig (beforeSignal plainParts False (powerOn\<lparr>hblank := True, hmoveCt := 0xff\<rparr>))) = 7
   \<and> Pixel (sig (beforeSignal plainParts False (powerOn\<lparr>hblank := True, hmoveCt := 0xff\<rparr>))) = VideoBlack
   \<and> AltPixel (sig (beforeSignal plainParts False (powerOn\<lparr>hblank := False, hmoveCt := 0xff\<rparr>))) = 7
   \<and> Pixel (sig (beforeSignal plainParts False (powerOn\<lparr>hblank := False, hmoveCt := 0xff\<rparr>))) = 30"
proof -
  have a: "AltPixel (sig (beforeSignal plainParts False (powerOn\<lparr>hblank := True, hmoveCt := 0xff\<rparr>))) = 7
     \<and> Pixel (sig (beforeSignal plainParts False (powerOn\<lparr>hblank := True, hmoveCt := 0xff\<rparr>))) = VideoBlack"
    using hblank_pixel [of plainParts False "powerOn\<lparr>hblank := True, hmoveCt := 0xff\<rparr>" False
            "\<lparr>Name = [], Value = 0\<rparr>"
            "powerOn\<lparr>videoCycles := 1, pclk := 3, hsync := 1, hblank := True, hmoveCt := 0xff\<rparr>"
            "0x1e" 7 "()"]
    by (simp add: ex_beforePixel ex_VideoPixel ex_hblank)
  have b: "AltPixel (sig (beforeSignal plainParts False (powerOn\<lparr>hblank := False, hmoveCt := 0xff\<rparr>))) = 7
     \<and> Pixel (sig (beforeSignal plainParts False (powerOn\<lparr>hblank := False, hmoveCt := 0xff\<rparr>))) = 30"
    using hblank_pixel [of plainParts False "powerOn\<lparr>hblank := False, hmoveCt := 0xff\<rparr>" False
            "\<lparr>Name = [], Value = 0\<rparr>"
            "powerOn\<lparr>videoCycles := 1, pclk := 3, hsync := 1, hblank := False, hmoveCt := 0xff\<rparr>"
            "0x1e" 7 "()"]
    by (simp add: ex_beforePixel ex_VideoPixel ex_hblank ColorSignal_def)
  show ?thesis using a b by simp
qed

text \<open>
  C7. When the television answers the signal with an error that is not \<^verbatim>\<open>TVOutOfSpec\<close>,
  the step returns that error (with RDY) at once. When the error is \<^verbatim>\<open>TVOutOfSpec\<close>
  the step ends as it does without an error: it resets \<^verbatim>\<open>HSyncSimple\<close> and returns no
  error.
\<close>

theorem tv_error:
  "tvSignal ps (sig (beforeSignal ps sm t)) (tv (beforeSignal ps sm t)) = (result, tv') \<longrightarrow>
     (\<forall>err. result = Some err \<and> \<not> Is err TVOutOfSpec \<longrightarrow>
        TIAStep ps sm t =
          ((\<not> wsync (beforeSignal ps sm t), Some err), (beforeSignal ps sm t)\<lparr>tv := tv'\<rparr>))
     \<and> (\<forall>err. result = Some err \<and> Is err TVOutOfSpec \<longrightarrow>
        TIAStep ps sm t =
          ((\<not> wsync (beforeSignal ps sm t), None),
           (beforeSignal ps sm t)\<lparr>tv := tv', sig := (sig (beforeSignal ps sm t))\<lparr>HSyncSimple := False\<rparr>\<rparr>))
     \<and> (result = None \<longrightarrow>
        TIAStep ps sm t =
          ((\<not> wsync (beforeSignal ps sm t), None),
           (beforeSignal ps sm t)\<lparr>tv := tv', sig := (sig (beforeSignal ps sm t))\<lparr>HSyncSimple := False\<rparr>\<rparr>))"
  by (simp add: TIAStep_def sendSignal_def Let_def)

theorem tv_error_witness:
  "Is (AtariError TVOutOfSpec []) TVOutOfSpec
   \<and> fst (TIAStep plainParts False (powerOn\<lparr>tv := Some (AtariError TVOutOfSpec [])\<rparr>)) = (True, None)
   \<and> HSyncSimple (sig (snd (TIAStep plainParts False (powerOn\<lparr>tv := Some (AtariError TVOutOfSpec [])\<rparr>)))) = False
   \<and> \<not> Is (AtariError UnknownTVRequest []) TVOutOfSpec
   \<and> fst (TIAStep plainParts False (powerOn\<lparr>tv := Some (AtariError UnknownTVRequest [])\<rparr>))
       = (True, Some (AtariError UnknownTVRequest []))
   \<and> fst (TIAStep plainParts False (powerOn\<lparr>tv := None\<rparr>)) = (True, None)"
proof -
  have a: "fst (TIAStep plainParts False (powerOn\<lparr>tv := Some (AtariError TVOutOfSpec [])\<rparr>)) = (True, None)
     \<and> HSyncSimple (sig (snd (TIAStep plainParts False (powerOn\<lparr>tv := Some (AtariError TVOutOfSpec [])\<rparr>)))) = False"
    using tv_error [of plainParts False "powerOn\<lparr>tv := Some (AtariError TVOutOfSpec [])\<rparr>"
            "Some (AtariError TVOutOfSpec [])" "Some (AtariError TVOutOfSpec [])"]
    by (simp add: ex_tvSignal ex_beforeSignal_tv)
  have b: "fst (TIAStep plainParts False (powerOn\<lparr>tv := Some (AtariError UnknownTVRequest [])\<rparr>))
       = (True, Some (AtariError UnknownTVRequest []))"
    using tv_error [of plainParts False "powerOn\<lparr>tv := Some (AtariError UnknownTVRequest [])\<rparr>"
            "Some (AtariError UnknownTVRequest [])" "Some (AtariError UnknownTVRequest [])"]
    by (simp add: ex_tvSignal ex_beforeSignal_tv)
  have c: "fst (TIAStep plainParts False (powerOn\<lparr>tv := None\<rparr>)) = (True, None)"
    using tv_error [of plainParts False "powerOn\<lparr>tv := None\<rparr>" None None]
    by (simp add: ex_tvSignal ex_beforeSignal_tv)
  show ?thesis using a b c by simp
qed

text \<open>
  C10. Let \<open>t1\<close> be the TIA after the service of its registers and the tick of the
  delayed events. The step decrements \<open>hmoveCt\<close> by one when Phi2 is up and the counter
  is not \<^verbatim>\<open>0xff\<close>, and leaves it as it is otherwise; each decrement brings the counter one
  step nearer to \<^verbatim>\<open>0xff\<close>. As long as no HMOVE takes effect, a counter at \<^verbatim>\<open>0xff\<close> stays
  there through any run of steps.
\<close>

theorem hmoveCt_absorbing:
  "(serviceTIA ps sm t = (sm1, data, t1) \<longrightarrow>
      hmoveCt (snd (TIAStep ps sm t)) =
        (if Phi2 ps (pclk t1) \<and> hmoveCt t1 \<noteq> 0xff then hmoveCt t1 - 1 else hmoveCt t1)
      \<and> (hmoveCt (snd (TIAStep ps sm t)) \<noteq> hmoveCt t1 \<longrightarrow>
           unat (hmoveCt (snd (TIAStep ps sm t)) + 1) + 1 = unat (hmoveCt t1 + 1)))
   \<and> (noHMOVE ps \<and> hmoveCt t = 0xff \<longrightarrow> hmoveCt (TIASteps ps sms t) = 0xff)"
proof (intro conjI impI)
  assume s: "serviceTIA ps sm t = (sm1, data, t1)"
  show eq: "hmoveCt (snd (TIAStep ps sm t)) =
        (if Phi2 ps (pclk t1) \<and> hmoveCt t1 \<noteq> 0xff then hmoveCt t1 - 1 else hmoveCt t1)"
    by (rule TIAStep_latches(3) [OF s])
  show "unat (hmoveCt (snd (TIAStep ps sm t)) + 1) + 1 = unat (hmoveCt t1 + 1)"
    if "hmoveCt (snd (TIAStep ps sm t)) \<noteq> hmoveCt t1"
  proof -
    from that eq have "hmoveCt t1 \<noteq> 0xff" and "hmoveCt (snd (TIAStep ps sm t)) = hmoveCt t1 - 1"
      by (auto split: if_splits)
    then show ?thesis using hmoveCt_next [of "hmoveCt t1"] by simp
  qed
next
  assume "noHMOVE ps \<and> hmoveCt t = 0xff"
  then show "hmoveCt (TIASteps ps sms t) = 0xff"
    by (simp add: TIASteps_hmoveCt_absorbed)
qed


theorem hmoveCt_absorbing_witness:
  "hmoveCt (snd (TIAStep plainParts False (powerOn\<lparr>hmoveCt := 3\<rparr>))) = 2
   \<and> hmoveCt (snd (TIAStep plainParts False (powerOn\<lparr>hmoveCt := 0\<rparr>))) = 0xff
   \<and> hmoveCt (snd (TIAStep plainParts False (powerOn\<lparr>hmoveCt := 0xff\<rparr>))) = 0xff
   \<and> noHMOVE plainParts \<and> hmoveCt powerOn = 0xff
   \<and> hmoveCt (TIASteps plainParts [True, False, True, True, False, True] powerOn) = 0xff"
proof -
  have a: "hmoveCt (snd (TIAStep plainParts False (powerOn\<lparr>hmoveCt := 3\<rparr>))) = 2"
    using hmoveCt_absorbing [of plainParts False "powerOn\<lparr>hmoveCt := 3\<rparr>" False "\<lparr>Name = [], Value = 0\<rparr>"
            "powerOn\<lparr>videoCycles := 1, pclk := 3, hmoveCt := 3\<rparr>" "[]"]
    by (simp add: ex_serviceTIA_ct ex_ct)
  have b: "hmoveCt (snd (TIAStep plainParts False (powerOn\<lparr>hmoveCt := 0\<rparr>))) = 0xff"
    using hmoveCt_absorbing [of plainParts False "powerOn\<lparr>hmoveCt := 0\<rparr>" False "\<lparr>Name = [], Value = 0\<rparr>"
            "powerOn\<lparr>videoCycles := 1, pclk := 3, hmoveCt := 0\<rparr>" "[]"]
    by (simp add: ex_serviceTIA_ct ex_ct)
  have c: "hmoveCt (snd (TIAStep plainParts False (powerOn\<lparr>hmoveCt := 0xff\<rparr>))) = 0xff"
    using hmoveCt_absorbing [of plainParts False "powerOn\<lparr>hmoveCt := 0xff\<rparr>" False "\<lparr>Name = [], Value = 0\<rparr>"
            "powerOn\<lparr>videoCycles := 1, pclk := 3, hmoveCt := 0xff\<rparr>" "[]"]
    by (simp add: ex_serviceTIA_ct ex_ct)
  have d: "hmoveCt (TIASteps plainParts [True, False, True, True, False, True] powerOn) = 0xff"
    using hmoveCt_absorbing [of plainParts False powerOn False "\<lparr>Name = [], Value = 0\<rparr>"
            "powerOn\<lparr>videoCycles := 1, pclk := 3, hmoveCt := 0xff\<rparr>" "[True, False, True, True, False, True]"]
          ex_noHMOVE
    by (simp add: ex_ct)
  show ?thesis using a b c d ex_noHMOVE by (simp add: ex_ct)
qed

section \<open>Hand controller: the keypad\<close>

lemma KeyboardDown_keys:
  assumes "r \<in> rune ` set ''123456789*#''"
  shows "handleEvent hc KeyboardDown (RuneValue r) = Inr (hc\<lparr>hc_keyboard := (hc_keyboard hc)\<lparr>key := r\<rparr>\<rparr>)"
  using assms by (auto simp: handleEvent_def)

lemma KeyboardDown_other_rune:
  assumes "r \<notin> rune ` set ''123456789*#''"
  shows "\<exists>vs. Handle hc KeyboardDown (RuneValue r) = (Some (AtariError BadInputEventType vs), hc)"
  using assms by (auto simp: Handle_def handleEvent_def badType_def)

lemma KeyboardDown_not_rune:
  assumes "\<forall>r. v \<noteq> RuneValue r"
  shows "Handle hc KeyboardDown v = (Some (badType KeyboardDown ''rune''), hc)"
  using assms by (cases v) (auto simp: Handle_def handleEvent_def)

text \<open>
  C9. The claim has \<^verbatim>\<open>Handle(KeyboardDown, '0')\<close> succeed and record the key. The
  test in the code lists the runes 1 to 9, the star and the hash, and leaves 0 out: the
  key 0 is answered with \<^verbatim>\<open>BadInputEventType\<close> and the controller is unchanged,
  whatever its state and whether or not a recorder is attached.
\<close>

theorem KeyboardDown_zero_rejected:
  "Handle hc KeyboardDown (RuneValue (rune CHR ''0'')) =
     (Some (AtariError BadInputEventType
        [StrValue ''KeyboardDown'',
         StrValue (''numeric rune or '' @ [CHR 39, CHR ''*'', CHR 39] @ '' or '' @ [CHR 39, CHR ''#'', CHR 39])]),
      hc)"
  by (simp add: Handle_def handleEvent_def badType_def rune_def)

section \<open>Patch files\<close>






subsection \<open>Evaluating the patcher on a small file\<close>












end
